theory Spec2Isabelle
  imports Complex_Main "HOL-Library.Log_Nat"
begin

section \<open>JavaScript values used by the scripts\<close>

subsection \<open>Errors\<close>

text \<open>
  Every \<^verbatim>\<open>throw\<close> of the scripts and of the built-ins they call is a value:
  \<open>RangeError\<close> is what \<^verbatim>\<open>BigInt(x)\<close> raises on a non-integral Number and what BigInt
  division by \<^verbatim>\<open>0n\<close> raises; \<open>Thrown msg\<close> is any other exception, with its message.
\<close>

datatype js_error = RangeError | Thrown string

subsection \<open>Numbers: IEEE 754 binary64\<close>

text \<open>
  A JavaScript \<^verbatim>\<open>number\<close> is a binary64 value. \<open>Fin s m e\<close> is the finite value
  \<open>(-1)\<^sup>s \<sqdot> m \<sqdot> 2\<^sup>e\<close>; the arithmetic below only produces \<open>m < 2\<^sup>5\<^sup>3\<close> and
  \<open>-1074 \<le> e \<le> 971\<close>, the finite binary64 values.
\<close>

datatype number = NaN | PosInf | NegInf | Fin bool nat int

definition valof :: "number \<Rightarrow> real" where
  "valof x = (case x of Fin s m e \<Rightarrow> (if s then - 1 else 1) * real m * 2 powr real_of_int e | _ \<Rightarrow> 0)"

definition is_zero :: "number \<Rightarrow> bool" where
  "is_zero x = (case x of Fin s m e \<Rightarrow> m = 0 | _ \<Rightarrow> False)"

definition is_negative :: "number \<Rightarrow> bool" where
  "is_negative x = (case x of Fin s m e \<Rightarrow> s | NegInf \<Rightarrow> True | _ \<Rightarrow> False)"

text \<open>Division of naturals rounded to the nearest integer, ties to the even one.\<close>

definition rne_div :: "nat \<Rightarrow> nat \<Rightarrow> nat" where
  "rne_div a b =
     (let q = a div b; r = a mod b
      in if 2 * r < b then q
         else if b < 2 * r then q + 1
         else if even q then q else q + 1)"

text \<open>\<open>floor_log2_ratio a b\<close> is the integer \<open>E\<close> with \<open>2\<^sup>E \<le> a / b < 2\<^sup>E\<^sup>+\<^sup>1\<close>, for positive \<open>a\<close>, \<open>b\<close>.\<close>

definition floor_log2_ratio :: "nat \<Rightarrow> nat \<Rightarrow> int" where
  "floor_log2_ratio a b =
     (let c = bitlen (int a) - bitlen (int b)
      in if (if 0 \<le> c then b * 2 ^ nat c \<le> a else b \<le> a * 2 ^ nat (- c)) then c else c - 1)"

text \<open>\<open>scaled_rne a b ex\<close> is \<open>a / (b \<sqdot> 2\<^sup>e\<^sup>x)\<close> rounded to the nearest integer, ties to even.\<close>

definition scaled_rne :: "nat \<Rightarrow> nat \<Rightarrow> int \<Rightarrow> nat" where
  "scaled_rne a b ex =
     (if 0 \<le> ex then rne_div a (b * 2 ^ nat ex) else rne_div (a * 2 ^ nat (- ex)) b)"

text \<open>
  \<open>round_to_double s a b\<close> is the binary64 value nearest to \<open>(-1)\<^sup>s \<sqdot> a / b\<close> (for \<open>b > 0\<close>), ties to
  even: 53 significant bits, exponent not below that of the subnormals, and an infinity when
  the rounded value reaches \<open>2\<^sup>1\<^sup>0\<^sup>2\<^sup>4\<close>.
\<close>

definition round_to_double :: "bool \<Rightarrow> nat \<Rightarrow> nat \<Rightarrow> number" where
  "round_to_double s a b =
     (if a = 0 then Fin s 0 0
      else
        let ex = max (floor_log2_ratio a b - 52) (- 1074);
            m = scaled_rne a b ex
        in if 971 < ex \<or> (ex = 971 \<and> m = 2 ^ 53) then (if s then NegInf else PosInf)
           else if m = 2 ^ 53 then Fin s (2 ^ 52) (ex + 1)
           else Fin s m ex)"

text \<open>
  \<^verbatim>\<open>x * y\<close> on Numbers: the exact product, rounded once.  An infinity times zero is NaN.
\<close>

fun js_mult :: "number \<Rightarrow> number \<Rightarrow> number" where
  "js_mult NaN y = NaN"
| "js_mult x NaN = NaN"
| "js_mult (Fin s1 m1 e1) (Fin s2 m2 e2) =
     (let e = e1 + e2
      in if 0 \<le> e then round_to_double (s1 \<noteq> s2) (m1 * m2 * 2 ^ nat e) 1
         else round_to_double (s1 \<noteq> s2) (m1 * m2) (2 ^ nat (- e)))"
| "js_mult x y =
     (if is_zero x \<or> is_zero y then NaN
      else if is_negative x \<noteq> is_negative y then NegInf else PosInf)"

text \<open>
  \<^verbatim>\<open>10 ** decimals\<close> for a non-negative integer exponent.  ECMA-262 leaves \<^verbatim>\<open>**\<close>
  implementation-approximated; the model takes the binary64 value nearest to \<open>10\<^sup>k\<close>, which is
  \<open>10\<^sup>k\<close> itself up to \<open>k = 22\<close> and \<^verbatim>\<open>Infinity\<close> from \<open>k = 309\<close> on.
\<close>

definition js_pow10 :: "nat \<Rightarrow> number" where
  "js_pow10 k = round_to_double False (10 ^ k) 1"

text \<open>
  \<^verbatim>\<open>Math.round(x)\<close>: the integral Number closest to \<open>x\<close>, the one nearer to \<open>+\<infinity>\<close> on a tie,
  that is \<open>\<lfloor>x + 1/2\<rfloor>\<close> computed exactly.  A value with a non-negative exponent is integral
  already; \<^verbatim>\<open>NaN\<close> and the infinities are returned as they are.
\<close>

definition js_Math_round :: "number \<Rightarrow> number" where
  "js_Math_round x =
     (case x of
        Fin s m e \<Rightarrow>
          if 0 \<le> e then Fin s m e
          else
            let v = ((if s then - 2 else 2) * int m + 2 ^ nat (- e)) div 2 ^ (nat (- e) + 1)
            in Fin s (nat \<bar>v\<bar>) 0
      | _ \<Rightarrow> x)"

text \<open>
  \<^verbatim>\<open>BigInt(x)\<close> for a Number \<open>x\<close>: its mathematical value when \<open>x\<close> is integral, RangeError
  otherwise (\<^verbatim>\<open>NaN\<close>, the infinities, a value with a fraction).
\<close>

definition js_BigInt :: "number \<Rightarrow> js_error + int" where
  "js_BigInt x =
     (case x of
        Fin s m e \<Rightarrow>
          if 0 \<le> e then Inr ((if s then - 1 else 1) * int (m * 2 ^ nat e))
          else if 2 ^ nat (- e) dvd m then Inr ((if s then - 1 else 1) * int (m div 2 ^ nat (- e)))
          else Inl RangeError
      | _ \<Rightarrow> Inl RangeError)"

text \<open>
  The Number a decimal literal denotes (\<^verbatim>\<open>parseFloat\<close>, or a literal in the program): the
  digits \<open>N\<close> with the last \<open>n\<close> of them after the point, correctly rounded.
\<close>

definition number_of_decimal :: "bool \<Rightarrow> nat \<Rightarrow> nat \<Rightarrow> number" where
  "number_of_decimal s N n = round_to_double s N (10 ^ n)"

subsection \<open>BigInt arithmetic and strings\<close>

text \<open>\<^verbatim>\<open>a / b\<close> and \<^verbatim>\<open>a % b\<close> on BigInts truncate towards zero; a zero divisor raises.\<close>

definition bigint_div :: "int \<Rightarrow> int \<Rightarrow> js_error + int" where
  "bigint_div a b = (if b = 0 then Inl RangeError else Inr (sgn a * sgn b * (\<bar>a\<bar> div \<bar>b\<bar>)))"

definition bigint_rem :: "int \<Rightarrow> int \<Rightarrow> js_error + int" where
  "bigint_rem a b = (if b = 0 then Inl RangeError else Inr (sgn a * (\<bar>a\<bar> mod \<bar>b\<bar>)))"

definition digit_char :: "nat \<Rightarrow> char" where
  "digit_char d = ''0123456789'' ! d"

fun digits10 :: "nat \<Rightarrow> string" where
  "digits10 n = (if n < 10 then [digit_char n] else digits10 (n div 10) @ [digit_char (n mod 10)])"

declare digits10.simps [simp del]

text \<open>\<^verbatim>\<open>BigInt.prototype.toString()\<close>, radix 10.\<close>

definition bigint_toString :: "int \<Rightarrow> string" where
  "bigint_toString i = (if i < 0 then CHR ''-'' # digits10 (nat (- i)) else digits10 (nat i))"

text \<open>\<^verbatim>\<open>s.padStart(n, c)\<close> with a one-character filler.\<close>

definition padStart :: "nat \<Rightarrow> char \<Rightarrow> string \<Rightarrow> string" where
  "padStart n c s = replicate (n - length s) c @ s"

text \<open>\<^verbatim>\<open>s.replace(/0+$/, "")\<close>.\<close>

definition strip_trailing_zeros :: "string \<Rightarrow> string" where
  "strip_trailing_zeros s = rev (dropWhile (\<lambda>c. c = CHR ''0'') (rev s))"

section \<open>Token amount codec (utils/token-helpers.ts)\<close>

text \<open>
  \<^verbatim>\<open>
  export function toTokenAmount(uiAmount: number, decimals: number): bigint {
    return BigInt(Math.round(uiAmount * 10 ** decimals));
  }
  \<close>
\<close>

definition toTokenAmount :: "number \<Rightarrow> nat \<Rightarrow> js_error + int" where
  "toTokenAmount uiAmount decimals = js_BigInt (js_Math_round (js_mult uiAmount (js_pow10 decimals)))"

text \<open>
  \<^verbatim>\<open>
  export function fromTokenAmount(raw: bigint, decimals: number): string {
    const divisor = BigInt(10 ** decimals);
    const whole = raw / divisor;
    const frac = raw % divisor;
    const fracStr = frac.toString().padStart(decimals, "0").replace(/0+$/, "");
    return fracStr ? `${whole}.${fracStr}` : whole.toString();
  }
  \<close>
\<close>

definition fromTokenAmount :: "int \<Rightarrow> nat \<Rightarrow> js_error + string" where
  "fromTokenAmount raw decimals =
     (case js_BigInt (js_pow10 decimals) of
        Inl err \<Rightarrow> Inl err
      | Inr divisor \<Rightarrow>
          (case bigint_div raw divisor of
             Inl err \<Rightarrow> Inl err
           | Inr whole \<Rightarrow>
               (case bigint_rem raw divisor of
                  Inl err \<Rightarrow> Inl err
                | Inr frac_part \<Rightarrow>
                    let fracStr =
                          strip_trailing_zeros (padStart decimals (CHR ''0'') (bigint_toString frac_part))
                    in Inr (if fracStr \<noteq> [] then bigint_toString whole @ ''.'' @ fracStr
                            else bigint_toString whole))))"

text \<open>
  The display form the specification describes, on exact integers: quotient and remainder by
  \<open>10\<^sup>d\<^sup>e\<^sup>c\<^sup>i\<^sup>m\<^sup>a\<^sup>l\<^sup>s\<close>, the remainder zero-padded to \<open>decimals\<close> digits, trailing zeros stripped,
  the separator dropped when no fractional digit is left.
\<close>

definition toDisplay_spec :: "nat \<Rightarrow> nat \<Rightarrow> string" where
  "toDisplay_spec baseUnits decimals =
     (let whole = baseUnits div 10 ^ decimals;
          frac_part = baseUnits mod 10 ^ decimals;
          fracStr = strip_trailing_zeros (padStart decimals (CHR ''0'') (digits10 frac_part))
      in if fracStr = [] then digits10 whole else digits10 whole @ ''.'' @ fracStr)"

section \<open>Parsing command-line numbers\<close>

text \<open>
  \<^verbatim>\<open>parseInt(s, 10)\<close> and \<^verbatim>\<open>parseFloat(s)\<close> skip leading white space, read an optional sign
  and the longest prefix that is a numeral, and yield \<^verbatim>\<open>NaN\<close> when there is none.
\<close>

definition is_js_whitespace :: "char \<Rightarrow> bool" where
  "is_js_whitespace c = (c \<in> set [CHR '' '', CHR 0x09, CHR 0x0A, CHR 0x0B, CHR 0x0C, CHR 0x0D])"

definition is_digit :: "char \<Rightarrow> bool" where
  "is_digit c = (48 \<le> (of_char c :: nat) \<and> (of_char c :: nat) \<le> 57)"

definition digits_value :: "string \<Rightarrow> nat" where
  "digits_value ds = foldl (\<lambda>acc c. 10 * acc + ((of_char c :: nat) - 48)) 0 ds"

definition split_sign :: "string \<Rightarrow> bool \<times> string" where
  "split_sign t =
     (case t of
        [] \<Rightarrow> (False, [])
      | c # r \<Rightarrow> if c = CHR ''-'' then (True, r) else if c = CHR ''+'' then (False, r) else (False, t))"

definition parseInt10 :: "string \<Rightarrow> number" where
  "parseInt10 str =
     (let (neg, u) = split_sign (dropWhile is_js_whitespace str);
          ds = takeWhile is_digit u
      in if ds = [] then NaN else round_to_double neg (digits_value ds) 1)"

text \<open>The exponent part \<^verbatim>\<open>e[+-]digits\<close> at the head of a string, 0 when there is none.\<close>

definition exponent_part :: "string \<Rightarrow> int" where
  "exponent_part r =
     (case r of
        [] \<Rightarrow> 0
      | c # r' \<Rightarrow>
          if c = CHR ''e'' \<or> c = CHR ''E'' then
            (let (neg, u) = split_sign r'; ds = takeWhile is_digit u
             in if ds = [] then 0 else (if neg then - int (digits_value ds) else int (digits_value ds)))
          else 0)"

definition parseFloat :: "string \<Rightarrow> number" where
  "parseFloat str =
     (let (neg, u) = split_sign (dropWhile is_js_whitespace str)
      in if take 8 u = ''Infinity'' then (if neg then NegInf else PosInf)
         else
           let ip = takeWhile is_digit u;
               r1 = dropWhile is_digit u;
               has_point = (r1 \<noteq> [] \<and> hd r1 = CHR ''.'' \<and> (ip \<noteq> [] \<or> takeWhile is_digit (tl r1) \<noteq> []));
               fp = (if has_point then takeWhile is_digit (tl r1) else []);
               r2 = (if has_point then dropWhile is_digit (tl r1) else r1);
               ex = exponent_part r2 - int (length fp)
           in if ip = [] \<and> fp = [] then NaN
              else if 0 \<le> ex then round_to_double neg (digits_value (ip @ fp) * 10 ^ nat ex) 1
              else round_to_double neg (digits_value (ip @ fp)) (10 ^ nat (- ex)))"

text \<open>\<^verbatim>\<open>x / y\<close> on Numbers: the exact quotient, rounded once.\<close>

fun js_div :: "number \<Rightarrow> number \<Rightarrow> number" where
  "js_div NaN y = NaN"
| "js_div x NaN = NaN"
| "js_div (Fin s1 m1 e1) (Fin s2 m2 e2) =
     (if m2 = 0 then (if m1 = 0 then NaN else if s1 \<noteq> s2 then NegInf else PosInf)
      else if 0 \<le> e1 - e2 then round_to_double (s1 \<noteq> s2) (m1 * 2 ^ nat (e1 - e2)) m2
      else round_to_double (s1 \<noteq> s2) m1 (m2 * 2 ^ nat (e2 - e1)))"
| "js_div (Fin s1 m1 e1) y = Fin (s1 \<noteq> is_negative y) 0 0"
| "js_div x (Fin s2 m2 e2) = (if is_negative x \<noteq> s2 then NegInf else PosInf)"
| "js_div x y = NaN"

section \<open>Configuration (config.ts)\<close>

type_synonym bytes = "nat list"

record keypair =
  publicKey :: bytes
  secretKey :: bytes

text \<open>
  The packages the scripts import (\<^verbatim>\<open>@solana/web3.js\<close>, \<^verbatim>\<open>bs58\<close>) and \<^verbatim>\<open>JSON.parse\<close> are not
  part of the repository: the model takes their functions as parameters.
  \<open>json_byte_array raw\<close> is \<^verbatim>\<open>Uint8Array.from(JSON.parse(raw))\<close>, \<open>tx_deserialize s\<close> is
  \<^verbatim>\<open>VersionedTransaction.deserialize(Buffer.from(s, "base64"))\<close>, \<open>generate\<close> is the key pair
  \<^verbatim>\<open>Keypair.generate()\<close> draws, \<open>json_field j f\<close> is the property \<open>f\<close> of a parsed JSON object.
\<close>

record library =
  clusterApiUrl :: "string \<Rightarrow> js_error + string"
  bs58_decode :: "string \<Rightarrow> js_error + bytes"
  json_byte_array :: "string \<Rightarrow> js_error + bytes"
  fromSecretKey :: "bytes \<Rightarrow> js_error + keypair"
  new_PublicKey :: "string \<Rightarrow> js_error + bytes"
  generate :: keypair
  json_field :: "string \<Rightarrow> string \<Rightarrow> string option"
  tx_deserialize :: "string option \<Rightarrow> js_error + bytes"
  tx_sign :: "bytes \<Rightarrow> keypair \<Rightarrow> js_error + bytes"
  tx_serialize :: "bytes \<Rightarrow> js_error + bytes"

text \<open>The process: its environment variables and the files it can read.\<close>

record process_env =
  vars :: "string \<Rightarrow> string option"
  files :: "string \<Rightarrow> string option"

text \<open>\<^verbatim>\<open>process.env.X || d\<close>: an unset or empty variable gives the default.\<close>

definition env_or :: "process_env \<Rightarrow> string \<Rightarrow> string \<Rightarrow> string" where
  "env_or env name d = (case vars env name of None \<Rightarrow> d | Some v \<Rightarrow> if v \<noteq> [] then v else d)"

record config =
  NETWORK :: string
  RPC_URL :: string
  WALLET_PATH :: string
  COMMITMENT :: string
  JUPITER_API_URL :: string

text \<open>
  \<^verbatim>\<open>
  export const NETWORK: Cluster = (process.env.SOLANA_NETWORK as Cluster) || "mainnet-beta";
  export const RPC_URL: string = process.env.SOLANA_RPC_URL || clusterApiUrl(NETWORK);
  export const WALLET_PATH: string = process.env.WALLET_PATH ||
    `${process.env.HOME || process.env.USERPROFILE}/.config/solana/id.json`;
  export const COMMITMENT = "confirmed" as const;
  export const JUPITER_API_URL = "https://quote-api.jup.ag/v6";
  \<close>
\<close>

definition load_config :: "library \<Rightarrow> process_env \<Rightarrow> js_error + config" where
  "load_config L env =
     (let network = env_or env ''SOLANA_NETWORK'' ''mainnet-beta'';
          url = (if env_or env ''SOLANA_RPC_URL'' [] \<noteq> [] then Inr (env_or env ''SOLANA_RPC_URL'' [])
                 else clusterApiUrl L network);
          home = env_or env ''HOME'' (env_or env ''USERPROFILE'' ''undefined'')
      in case url of
           Inl err \<Rightarrow> Inl err
         | Inr u \<Rightarrow>
             Inr \<lparr>NETWORK = network, RPC_URL = u,
                  WALLET_PATH = env_or env ''WALLET_PATH'' (home @ ''/.config/solana/id.json''),
                  COMMITMENT = ''confirmed'',
                  JUPITER_API_URL = ''https://quote-api.jup.ag/v6''\<rparr>)"

section \<open>Identity resolver (utils/wallet.ts)\<close>

text \<open>
  \<^verbatim>\<open>
  export function loadKeypairFromFile(path: string = WALLET_PATH): Keypair {
    const raw = fs.readFileSync(path, "utf-8");
    const secret = Uint8Array.from(JSON.parse(raw));
    return Keypair.fromSecretKey(secret);
  }
  \<close>
  Reading a file that does not exist throws.
\<close>

definition loadKeypairFromFile :: "library \<Rightarrow> process_env \<Rightarrow> string \<Rightarrow> js_error + keypair" where
  "loadKeypairFromFile L env path =
     (case files env path of
        None \<Rightarrow> Inl (Thrown (''ENOENT: no such file or directory, open '' @ path))
      | Some raw \<Rightarrow>
          (case json_byte_array L raw of
             Inl err \<Rightarrow> Inl err
           | Inr secret \<Rightarrow> fromSecretKey L secret))"

text \<open>
  \<^verbatim>\<open>
  export function loadKeypairFromBase58(base58Key: string): Keypair {
    const secret = bs58.decode(base58Key);
    return Keypair.fromSecretKey(secret);
  }
  \<close>
\<close>

definition loadKeypairFromBase58 :: "library \<Rightarrow> string \<Rightarrow> js_error + keypair" where
  "loadKeypairFromBase58 L base58Key =
     (case bs58_decode L base58Key of
        Inl err \<Rightarrow> Inl err
      | Inr secret \<Rightarrow> fromSecretKey L secret)"

text \<open>
  \<^verbatim>\<open>
  export function resolveKeypair(): Keypair {
    const envKey = process.env.WALLET_PRIVATE_KEY;
    if (envKey) {
      return loadKeypairFromBase58(envKey);
    }
    return loadKeypairFromFile();
  }
  \<close>
  An empty string is falsy: an empty \<^verbatim>\<open>WALLET_PRIVATE_KEY\<close> counts as no secret.
\<close>

definition resolveKeypair :: "library \<Rightarrow> config \<Rightarrow> process_env \<Rightarrow> js_error + keypair" where
  "resolveKeypair L cfg env =
     (case vars env ''WALLET_PRIVATE_KEY'' of
        Some envKey \<Rightarrow>
          if envKey \<noteq> [] then loadKeypairFromBase58 L envKey
          else loadKeypairFromFile L env (WALLET_PATH cfg)
      | None \<Rightarrow> loadKeypairFromFile L env (WALLET_PATH cfg))"

section \<open>Connection manager (utils/connection.ts)\<close>

text \<open>
  A \<^verbatim>\<open>Connection\<close> object is its identity (the order of its construction in the process)
  and the endpoint and commitment it was constructed with.  The module state is the variable
  \<^verbatim>\<open>_connection\<close> (\<open>shared\<close>, \<open>None\<close> for \<^verbatim>\<open>null\<close>) and the number of objects constructed so far.
\<close>

record connection =
  conn_id :: nat
  endpoint :: string
  commitment :: string

record module_state =
  shared :: "connection option"
  constructed :: nat

definition initial_module_state :: module_state where
  "initial_module_state = \<lparr>shared = None, constructed = 0\<rparr>"

text \<open>\<^verbatim>\<open>new Connection(url, commitment)\<close>.\<close>

definition new_Connection :: "string \<Rightarrow> string \<Rightarrow> module_state \<Rightarrow> connection \<times> module_state" where
  "new_Connection url c st =
     (\<lparr>conn_id = constructed st, endpoint = url, commitment = c\<rparr>,
      st\<lparr>constructed := Suc (constructed st)\<rparr>)"

text \<open>
  \<^verbatim>\<open>
  let _connection: Connection | null = null;
  export function getConnection(): Connection {
    if (!_connection) {
      _connection = new Connection(RPC_URL, COMMITMENT);
    }
    return _connection;
  }
  \<close>
\<close>

definition getConnection :: "config \<Rightarrow> module_state \<Rightarrow> connection \<times> module_state" where
  "getConnection cfg st =
     (case shared st of
        None \<Rightarrow>
          (let (c, st') = new_Connection (RPC_URL cfg) (COMMITMENT cfg) st
           in (c, st'\<lparr>shared := Some c\<rparr>))
      | Some c \<Rightarrow> (c, st))"

text \<open>
  \<^verbatim>\<open>
  export function createConnection(url: string = RPC_URL, commitment: string = COMMITMENT): Connection {
    return new Connection(url, commitment as any);
  }
  \<close>
  An argument left out (\<open>None\<close>) takes its default.
\<close>

definition createConnection ::
  "config \<Rightarrow> string option \<Rightarrow> string option \<Rightarrow> module_state \<Rightarrow> connection \<times> module_state" where
  "createConnection cfg url c st =
     new_Connection (case url of None \<Rightarrow> RPC_URL cfg | Some u \<Rightarrow> u)
                    (case c of None \<Rightarrow> COMMITMENT cfg | Some k \<Rightarrow> k) st"

text \<open>A process calls the two functions in any order; \<open>run_calls\<close> collects what they return.\<close>

datatype conn_call = GetConnection | CreateConnection "string option" "string option"

fun run_calls :: "config \<Rightarrow> conn_call list \<Rightarrow> module_state \<Rightarrow> (conn_call \<times> connection) list \<times> module_state" where
  "run_calls cfg [] st = ([], st)"
| "run_calls cfg (GetConnection # cs) st =
     (let (c, st') = getConnection cfg st; (rs, st'') = run_calls cfg cs st'
      in ((GetConnection, c) # rs, st''))"
| "run_calls cfg (CreateConnection u k # cs) st =
     (let (c, st') = createConnection cfg u k st; (rs, st'') = run_calls cfg cs st'
      in ((CreateConnection u k, c) # rs, st''))"

section \<open>Running a script\<close>

text \<open>
  What a script does is the sequence of its effects: lines on the console, the construction of
  the connection object, and requests to the network (the RPC node, the aggregator).  A console
  line is kept as the pieces of its template: literal text, a Number, a BigInt, a public key
  printed with \<^verbatim>\<open>toBase58()\<close>, the \<^verbatim>\<open>message\<close> of a caught error, a property of a JSON
  object.
\<close>

datatype piece = Lit string | Num number | Big int | Key bytes | Msg js_error | Prop string string

datatype request =
    RequestAirdrop bytes number
  | GetLatestBlockhash
  | ConfirmTransaction string "(string \<times> number) option" string
  | GetBalance bytes
  | GetMint bytes
  | CreateMint bytes bytes bytes number bytes
  | SendRawTransaction bytes bool nat
  | QuoteRequest bytes bytes int number
  | SwapRequest string bytes bool

datatype event =
    ConsoleLog "piece list"
  | ConsoleError "piece list"
  | NewConnection connection
  | Network request

text \<open>
  The answers of the network are parameters.  \<open>CreateMint payer mintAuthority freezeAuthority
  decimals mint\<close> is the call \<^verbatim>\<open>createMint(connection, payer, mintAuthority, freezeAuthority,
  decimals, keypair)\<close> of \<^verbatim>\<open>@solana/spl-token\<close>; \<open>SendRawTransaction raw skipPreflight
  maxRetries\<close> is \<^verbatim>\<open>connection.sendRawTransaction(raw, {skipPreflight, maxRetries})\<close>.
\<close>

record http_response =
  ok :: bool
  text_body :: string
  json_body :: "js_error + string"

record network =
  requestAirdrop :: "bytes \<Rightarrow> number \<Rightarrow> js_error + string"
  getLatestBlockhash :: "js_error + string \<times> number"
  confirmTransaction :: "string \<Rightarrow> js_error + unit"
  getBalance :: "bytes \<Rightarrow> js_error + number"
  getMint :: "bytes \<Rightarrow> js_error + nat"
  createMint :: "bytes \<Rightarrow> bytes \<Rightarrow> bytes \<Rightarrow> number \<Rightarrow> bytes \<Rightarrow> js_error + bytes"
  sendRawTransaction :: "bytes \<Rightarrow> js_error + string"
  fetch_quote :: "bytes \<Rightarrow> bytes \<Rightarrow> int \<Rightarrow> number \<Rightarrow> js_error + http_response"
  fetch_swap :: "string \<Rightarrow> bytes \<Rightarrow> js_error + http_response"

text \<open>
  A computation ends with a value, with an exception, or with \<^verbatim>\<open>process.exit(n)\<close>; the effects
  before that point have happened.
\<close>

datatype 'a completion = Value 'a | Throw js_error | Exit nat

type_synonym 'a run = "event list \<times> 'a completion"

definition then_run :: "'a run \<Rightarrow> ('a \<Rightarrow> 'b run) \<Rightarrow> 'b run" where
  "then_run m f =
     (case m of
        (es, Value a) \<Rightarrow> (let (es', r) = f a in (es @ es', r))
      | (es, Throw err) \<Rightarrow> (es, Throw err)
      | (es, Exit n) \<Rightarrow> (es, Exit n))"

definition pure_run :: "'a \<Rightarrow> 'a run" where
  "pure_run a = ([], Value a)"

definition throw :: "js_error \<Rightarrow> 'a run" where
  "throw err = ([], Throw err)"

definition lift :: "js_error + 'a \<Rightarrow> 'a run" where
  "lift r = (case r of Inl err \<Rightarrow> throw err | Inr a \<Rightarrow> pure_run a)"

definition ask :: "request \<Rightarrow> js_error + 'a \<Rightarrow> 'a run" where
  "ask req r = ([Network req], (case r of Inl err \<Rightarrow> Throw err | Inr a \<Rightarrow> Value a))"

definition console_log :: "piece list \<Rightarrow> unit run" where
  "console_log ps = ([ConsoleLog ps], Value ())"

definition console_error :: "piece list \<Rightarrow> unit run" where
  "console_error ps = ([ConsoleError ps], Value ())"

definition process_exit :: "nat \<Rightarrow> 'a run" where
  "process_exit n = ([], Exit n)"

text \<open>\<^verbatim>\<open>getConnection()\<close> in a script: the first call of the process, which constructs.\<close>

definition connect :: "config \<Rightarrow> connection run" where
  "connect cfg = (let (c, st) = getConnection cfg initial_module_state in ([NewConnection c], Value c))"

text \<open>\<^verbatim>\<open>process.argv[i]\<close>, the empty string standing for \<^verbatim>\<open>undefined\<close> (both are falsy).\<close>

definition argv_at :: "string list \<Rightarrow> nat \<Rightarrow> string" where
  "argv_at argv i = (if i < length argv then argv ! i else [])"

text \<open>
  \<^verbatim>\<open>
  main().catch((err) => {
    console.error("... failed:", err.message);
    process.exit(1);
  });
  \<close>
\<close>

record outcome =
  events :: "event list"
  exit_code :: nat

definition run_main :: "string \<Rightarrow> unit run \<Rightarrow> outcome" where
  "run_main label m =
     (case m of
        (es, Value u) \<Rightarrow> \<lparr>events = es, exit_code = 0\<rparr>
      | (es, Throw err) \<Rightarrow> \<lparr>events = es @ [ConsoleError [Lit label, Msg err]], exit_code = 1\<rparr>
      | (es, Exit n) \<Rightarrow> \<lparr>events = es, exit_code = n\<rparr>)"

definition check_mark :: string where
  "check_mark = [CHR 0xE2, CHR 0x9C, CHR 0x93]"

definition arrow :: string where
  "arrow = [CHR 0xE2, CHR 0x86, CHR 0x92]"

definition em_dash :: string where
  "em_dash = [CHR 0xE2, CHR 0x80, CHR 0x94]"

definition LAMPORTS_PER_SOL :: number where
  "LAMPORTS_PER_SOL = Fin False 1000000000 0"

section \<open>Airdrop (actions/airdrop-devnet.ts)\<close>

text \<open>
  \<^verbatim>\<open>
  async function main() {
    if (NETWORK === "mainnet-beta") {
      console.error("Airdrop is not available on mainnet. Use devnet or testnet.");
      process.exit(1);
    }
    const connection = getConnection();
    const amountSOL = parseFloat(process.argv[2] || "2");
    const addressStr = process.argv[3];
    let address: PublicKey;
    if (addressStr) { address = new PublicKey(addressStr); }
    else { address = resolveKeypair().publicKey; }
    const lamports = Math.round(amountSOL * LAMPORTS_PER_SOL);
    console.log(`Requesting ${amountSOL} SOL airdrop on ${NETWORK}...`);
    console.log(`Address: ${address.toBase58()}`);
    const sig = await connection.requestAirdrop(address, lamports);
    console.log(`Airdrop requested: ${sig}`);
    console.log("Confirming...");
    const { blockhash, lastValidBlockHeight } = await connection.getLatestBlockhash();
    await connection.confirmTransaction({ signature: sig, blockhash, lastValidBlockHeight }, "confirmed");
    const balance = await connection.getBalance(address);
    console.log(`... Airdrop confirmed. New balance: ${balance / LAMPORTS_PER_SOL} SOL`);
  }
  \<close>
\<close>

definition airdrop_main :: "library \<Rightarrow> config \<Rightarrow> process_env \<Rightarrow> network \<Rightarrow> string list \<Rightarrow> unit run" where
  "airdrop_main L cfg env W argv =
     (if NETWORK cfg = ''mainnet-beta'' then
        then_run (console_error [Lit ''Airdrop is not available on mainnet. Use devnet or testnet.''])
          (\<lambda>u. process_exit 1)
      else
        then_run (connect cfg) (\<lambda>connection.
        let amountSOL = parseFloat (if argv_at argv 2 \<noteq> [] then argv_at argv 2 else ''2'');
            addressStr = argv_at argv 3
        in
        then_run (if addressStr \<noteq> [] then lift (new_PublicKey L addressStr)
                  else then_run (lift (resolveKeypair L cfg env)) (\<lambda>kp. pure_run (publicKey kp)))
          (\<lambda>address.
        let lamports = js_Math_round (js_mult amountSOL LAMPORTS_PER_SOL) in
        then_run (console_log [Lit ''Requesting '', Num amountSOL, Lit '' SOL airdrop on '',
                               Lit (NETWORK cfg), Lit ''...'']) (\<lambda>u.
        then_run (console_log [Lit ''Address: '', Key address]) (\<lambda>u.
        then_run (ask (RequestAirdrop address lamports) (requestAirdrop W address lamports)) (\<lambda>sig.
        then_run (console_log [Lit ''Airdrop requested: '', Lit sig]) (\<lambda>u.
        then_run (console_log [Lit ''Confirming...'']) (\<lambda>u.
        then_run (ask GetLatestBlockhash (getLatestBlockhash W)) (\<lambda>anchor.
        then_run (ask (ConfirmTransaction sig (Some anchor) ''confirmed'') (confirmTransaction W sig)) (\<lambda>u.
        then_run (ask (GetBalance address) (getBalance W address)) (\<lambda>balance.
        console_log [Lit check_mark, Lit '' Airdrop confirmed. New balance: '',
                     Num (js_div balance LAMPORTS_PER_SOL), Lit '' SOL''])))))))))))"

definition airdrop_script :: "library \<Rightarrow> config \<Rightarrow> process_env \<Rightarrow> network \<Rightarrow> string list \<Rightarrow> outcome" where
  "airdrop_script L cfg env W argv = run_main ''Airdrop failed:'' (airdrop_main L cfg env W argv)"

section \<open>Create mint (actions/create-token.ts)\<close>

text \<open>
  \<^verbatim>\<open>
  async function main() {
    const decimals = parseInt(process.argv[2] || "9", 10);
    const connection = getConnection();
    const payer = resolveKeypair();
    const mintKeypair = Keypair.generate();
    console.log(`Creating token mint with ${decimals} decimals...`);
    console.log(`Payer / Mint Authority: ${payer.publicKey.toBase58()}`);
    const mint = await createMint(
      connection, payer,
      payer.publicKey,  // mint authority
      payer.publicKey,  // freeze authority (set null to disable)
      decimals, mintKeypair);
    console.log(`... Token mint created: ${mint.toBase58()}`);
    console.log(`  Decimals:        ${decimals}`);
    console.log(`  Mint authority:  ${payer.publicKey.toBase58()}`);
    console.log(`  Freeze authority: ${payer.publicKey.toBase58()}`);
  }
  \<close>
\<close>

definition create_token_main :: "library \<Rightarrow> config \<Rightarrow> process_env \<Rightarrow> network \<Rightarrow> string list \<Rightarrow> unit run" where
  "create_token_main L cfg env W argv =
     (let decimals = parseInt10 (if argv_at argv 2 \<noteq> [] then argv_at argv 2 else ''9'') in
      then_run (connect cfg) (\<lambda>connection.
      then_run (lift (resolveKeypair L cfg env)) (\<lambda>payer.
      let mintKeypair = generate L in
      then_run (console_log [Lit ''Creating token mint with '', Num decimals, Lit '' decimals...'']) (\<lambda>u.
      then_run (console_log [Lit ''Payer / Mint Authority: '', Key (publicKey payer)]) (\<lambda>u.
      then_run (ask (CreateMint (publicKey payer) (publicKey payer) (publicKey payer) decimals
                       (publicKey mintKeypair))
                    (createMint W (publicKey payer) (publicKey payer) (publicKey payer) decimals
                       (publicKey mintKeypair))) (\<lambda>mint.
      then_run (console_log [Lit check_mark, Lit '' Token mint created: '', Key mint]) (\<lambda>u.
      then_run (console_log [Lit ''  Decimals:        '', Num decimals]) (\<lambda>u.
      then_run (console_log [Lit ''  Mint authority:  '', Key (publicKey payer)]) (\<lambda>u.
      console_log [Lit ''  Freeze authority: '', Key (publicKey payer)])))))))))"

definition create_token_script :: "library \<Rightarrow> config \<Rightarrow> process_env \<Rightarrow> network \<Rightarrow> string list \<Rightarrow> outcome" where
  "create_token_script L cfg env W argv = run_main ''Create token failed:'' (create_token_main L cfg env W argv)"

section \<open>Swap (actions/swap-jupiter.ts)\<close>

text \<open>
  \<^verbatim>\<open>
  async function main() {
    const [, , inputMintStr, outputMintStr, amountStr, slippageStr] = process.argv;
    if (!inputMintStr || !outputMintStr || !amountStr) {
      console.error("Usage: ts-node actions/swap-jupiter.ts <inputMint> <outputMint> <amount> [slippageBps]");
      process.exit(1);
    }
    const connection = getConnection();
    const payer = resolveKeypair();
    const inputMint = new PublicKey(inputMintStr);
    const outputMint = new PublicKey(outputMintStr);
    const slippageBps = parseInt(slippageStr || "50", 10);
    const amount = parseFloat(amountStr);
    const mintInfo = await getMint(connection, inputMint);
    const rawAmount = toTokenAmount(amount, mintInfo.decimals);
    console.log(`Swapping ${amount} of ${inputMint.toBase58()} -> ${outputMint.toBase58()}`);
    console.log(`Slippage: ${slippageBps} bps`);
    const quoteUrl = new URL(`${JUPITER_API_URL}/quote`);   // inputMint, outputMint, amount, slippageBps
    const quoteRes = await fetch(quoteUrl.toString());
    if (!quoteRes.ok) { throw new Error(`Jupiter quote failed: ${await quoteRes.text()}`); }
    const quote = await quoteRes.json();
    console.log(`Quote received - estimated out: ${quote.outAmount}`);
    const swapRes = await fetch(`${JUPITER_API_URL}/swap`, { method: "POST", ...,
      body: JSON.stringify({ quoteResponse: quote, userPublicKey: payer.publicKey.toBase58(),
                             wrapAndUnwrapSol: true }) });
    if (!swapRes.ok) { throw new Error(`Jupiter swap failed: ${await swapRes.text()}`); }
    const { swapTransaction } = await swapRes.json();
    const txBuf = Buffer.from(swapTransaction, "base64");
    const tx = VersionedTransaction.deserialize(txBuf);
    tx.sign([payer]);
    const sig = await connection.sendRawTransaction(tx.serialize(), { skipPreflight: false, maxRetries: 3 });
    await connection.confirmTransaction(sig, "confirmed");
    console.log(`... Swap confirmed: ${sig}`);
  }
  \<close>
\<close>

definition swap_main :: "library \<Rightarrow> config \<Rightarrow> process_env \<Rightarrow> network \<Rightarrow> string list \<Rightarrow> unit run" where
  "swap_main L cfg env W argv =
     (let inputMintStr = argv_at argv 2; outputMintStr = argv_at argv 3;
          amountStr = argv_at argv 4; slippageStr = argv_at argv 5
      in
      if inputMintStr = [] \<or> outputMintStr = [] \<or> amountStr = [] then
        then_run (console_error
                    [Lit ''Usage: ts-node actions/swap-jupiter.ts <inputMint> <outputMint> <amount> [slippageBps]''])
          (\<lambda>u. process_exit 1)
      else
        then_run (connect cfg) (\<lambda>connection.
        then_run (lift (resolveKeypair L cfg env)) (\<lambda>payer.
        then_run (lift (new_PublicKey L inputMintStr)) (\<lambda>inputMint.
        then_run (lift (new_PublicKey L outputMintStr)) (\<lambda>outputMint.
        let slippageBps = parseInt10 (if slippageStr \<noteq> [] then slippageStr else ''50'');
            amount = parseFloat amountStr
        in
        then_run (ask (GetMint inputMint) (getMint W inputMint)) (\<lambda>decimals.
        then_run (lift (toTokenAmount amount decimals)) (\<lambda>rawAmount.
        then_run (console_log [Lit ''Swapping '', Num amount, Lit '' of '', Key inputMint,
                               Lit '' '', Lit arrow, Lit '' '', Key outputMint]) (\<lambda>u.
        then_run (console_log [Lit ''Slippage: '', Num slippageBps, Lit '' bps'']) (\<lambda>u.
        then_run (ask (QuoteRequest inputMint outputMint rawAmount slippageBps)
                      (fetch_quote W inputMint outputMint rawAmount slippageBps)) (\<lambda>quoteRes.
        then_run (if ok quoteRes then pure_run ()
                  else throw (Thrown (''Jupiter quote failed: '' @ text_body quoteRes))) (\<lambda>u.
        then_run (lift (json_body quoteRes)) (\<lambda>quote.
        then_run (console_log [Lit ''Quote received '', Lit em_dash, Lit '' estimated out: '',
                               Prop quote ''outAmount'']) (\<lambda>u.
        then_run (ask (SwapRequest quote (publicKey payer) True)
                      (fetch_swap W quote (publicKey payer))) (\<lambda>swapRes.
        then_run (if ok swapRes then pure_run ()
                  else throw (Thrown (''Jupiter swap failed: '' @ text_body swapRes))) (\<lambda>u.
        then_run (lift (json_body swapRes)) (\<lambda>body.
        then_run (lift (tx_deserialize L (json_field L body ''swapTransaction''))) (\<lambda>tx.
        then_run (lift (tx_sign L tx payer)) (\<lambda>signed.
        then_run (lift (tx_serialize L signed)) (\<lambda>raw.
        then_run (ask (SendRawTransaction raw False 3) (sendRawTransaction W raw)) (\<lambda>sig.
        then_run (ask (ConfirmTransaction sig None ''confirmed'') (confirmTransaction W sig)) (\<lambda>u.
        console_log [Lit check_mark, Lit '' Swap confirmed: '', Lit sig])))))))))))))))))))))"

definition swap_script :: "library \<Rightarrow> config \<Rightarrow> process_env \<Rightarrow> network \<Rightarrow> string list \<Rightarrow> outcome" where
  "swap_script L cfg env W argv = run_main ''Swap failed:'' (swap_main L cfg env W argv)"

subsection \<open>Reading a trace\<close>

definition is_send :: "event \<Rightarrow> bool" where
  "is_send ev = (case ev of Network (SendRawTransaction raw sp mr) \<Rightarrow> True | _ \<Rightarrow> False)"

definition is_network :: "event \<Rightarrow> bool" where
  "is_network ev = (case ev of Network req \<Rightarrow> True | NewConnection c \<Rightarrow> True | _ \<Rightarrow> False)"

text \<open>
  \<open>anchor_before_each_send fetched es\<close>: every submission in the trace \<open>es\<close> comes after a fetch
  of the freshness anchor (\<^verbatim>\<open>getLatestBlockhash\<close>) made since the submission before it;
  \<open>fetched\<close> says whether such a fetch has happened before \<open>es\<close> starts.
\<close>

fun anchor_before_each_send :: "bool \<Rightarrow> event list \<Rightarrow> bool" where
  "anchor_before_each_send fetched [] = True"
| "anchor_before_each_send fetched (Network GetLatestBlockhash # es) = anchor_before_each_send True es"
| "anchor_before_each_send fetched (Network (SendRawTransaction raw sp mr) # es) =
     (fetched \<and> anchor_before_each_send False es)"
| "anchor_before_each_send fetched (ev # es) = anchor_before_each_send fetched es"

section \<open>Auxiliary notions for the proofs\<close>

text \<open>
  The invariant of the connection module: the shared connection, once there, is one of the
  objects constructed so far and was constructed from the configuration.
\<close>

definition conn_inv :: "config \<Rightarrow> module_state \<Rightarrow> bool" where
  "conn_inv cfg st =
     (case shared st of
        None \<Rightarrow> True
      | Some c \<Rightarrow> conn_id c < constructed st \<and> endpoint c = RPC_URL cfg \<and> commitment c = COMMITMENT cfg)"

text \<open>
  A concrete process on which the scripts are evaluated: both a secret in the environment and a
  key file are present, every request succeeds.  The stand-ins for the packages keep the shape
  of the real ones (a secret key carries its public key in its second half).
\<close>

definition sample_library :: library where
  "sample_library =
     \<lparr>clusterApiUrl = (\<lambda>n. Inr (''https://api.'' @ n @ ''.solana.com'')),
      bs58_decode = (\<lambda>s. if s = ''3yZe7d'' then Inr [7, 7, 1, 2] else Inl (Thrown ''Non-base58 character'')),
      json_byte_array = (\<lambda>s. if s = ''[9,9,3,4]'' then Inr [9, 9, 3, 4] else Inl (Thrown ''Unexpected token'')),
      fromSecretKey = (\<lambda>b. if length b = 4 then Inr \<lparr>publicKey = drop 2 b, secretKey = b\<rparr>
                            else Inl (Thrown ''bad secret key size'')),
      new_PublicKey = (\<lambda>s. if s = [] then Inl (Thrown ''Invalid public key input'') else Inr (map of_char s)),
      generate = \<lparr>publicKey = [5, 6], secretKey = [8, 8, 5, 6]\<rparr>,
      json_field = (\<lambda>j f. if f = ''swapTransaction'' then Some j else None),
      tx_deserialize = (\<lambda>s. case s of None \<Rightarrow> Inl (Thrown ''The first argument must be of type string'')
                                | Some t \<Rightarrow> Inr (map of_char t)),
      tx_sign = (\<lambda>tx kp. Inr (publicKey kp @ tx)),
      tx_serialize = (\<lambda>tx. Inr tx)\<rparr>"

definition sample_env :: process_env where
  "sample_env =
     \<lparr>vars = (\<lambda>n. if n = ''WALLET_PRIVATE_KEY'' then Some ''3yZe7d'' else None),
      files = (\<lambda>p. if p = ''/home/dev/.config/solana/id.json'' then Some ''[9,9,3,4]'' else None)\<rparr>"

definition sample_config :: "string \<Rightarrow> config" where
  "sample_config network =
     \<lparr>NETWORK = network, RPC_URL = ''https://api.'' @ network @ ''.solana.com'',
      WALLET_PATH = ''/home/dev/.config/solana/id.json'', COMMITMENT = ''confirmed'',
      JUPITER_API_URL = ''https://quote-api.jup.ag/v6''\<rparr>"

definition sample_network :: network where
  "sample_network =
     \<lparr>requestAirdrop = (\<lambda>a n. Inr ''sig1''),
      getLatestBlockhash = Inr (''hash1'', Fin False 100 0),
      confirmTransaction = (\<lambda>s. Inr ()),
      getBalance = (\<lambda>a. Inr (Fin False 2000000000 0)),
      getMint = (\<lambda>m. Inr 9),
      createMint = (\<lambda>p m f d k. Inr k),
      sendRawTransaction = (\<lambda>raw. Inr ''sig2''),
      fetch_quote = (\<lambda>i out a s. Inr \<lparr>ok = True, text_body = ''{}'', json_body = Inr ''quote''\<rparr>),
      fetch_swap = (\<lambda>q k. Inr \<lparr>ok = True, text_body = ''{}'', json_body = Inr ''AQID''\<rparr>)\<rparr>"

text \<open>
  Three ways of reading the trace of a computation: a property of every event, the number of
  submissions, and that an event, if it occurs, is the last one and ends the computation with
  the given error.
\<close>

definition every_event :: "(event \<Rightarrow> bool) \<Rightarrow> 'a run \<Rightarrow> bool" where
  "every_event P m = (\<forall>ev \<in> set (fst m). P ev)"

definition send_count :: "'a run \<Rightarrow> nat" where
  "send_count m = length (filter is_send (fst m))"

definition stops_at :: "event \<Rightarrow> js_error \<Rightarrow> 'a run \<Rightarrow> bool" where
  "stops_at ev err m = (ev \<in> set (fst m) \<longrightarrow> snd m = Throw err \<and> last (fst m) = ev)"

text \<open>
  What an event puts on the console, and the property that an event shows no key outside a
  given set and no error message.
\<close>

definition console_pieces :: "event \<Rightarrow> piece list" where
  "console_pieces ev = (case ev of ConsoleLog ps \<Rightarrow> ps | ConsoleError ps \<Rightarrow> ps | _ \<Rightarrow> [])"

definition shows_only :: "bytes set \<Rightarrow> event \<Rightarrow> bool" where
  "shows_only A ev =
     (\<forall>p \<in> set (console_pieces ev). case p of Key k \<Rightarrow> k \<in> A | Msg err \<Rightarrow> False | _ \<Rightarrow> True)"

text \<open>
  A process whose key file is damaged: the bytes of the secret followed by a stray comma, and no
  secret in the environment.  The stand-in for \<^verbatim>\<open>JSON.parse\<close> does what the one of V8 does on
  such a text: the message of its SyntaxError quotes the text.
\<close>

definition quoting_library :: library where
  "quoting_library =
     sample_library\<lparr>json_byte_array :=
       (\<lambda>s. if s = ''[9,9,3,4]'' then Inr [9, 9, 3, 4]
            else Inl (Thrown (''Unexpected token in JSON text: '' @ s)))\<rparr>"

definition damaged_key_file_env :: process_env where
  "damaged_key_file_env =
     \<lparr>vars = (\<lambda>n. None),
      files = (\<lambda>p. if p = ''/home/dev/.config/solana/id.json'' then Some ''[9,9,3,4,]'' else None)\<rparr>"

section \<open>Evaluation rules\<close>

text \<open>
  Rules that let the simplifier compute the recursive functions on numerals: each unfolds one
  step under a condition that a numeral decides.
\<close>

lemma digits10_small: "n < 10 \<Longrightarrow> digits10 n = [digit_char n]"
  by (simp add: digits10.simps)

lemma digits10_large: "10 \<le> n \<Longrightarrow> digits10 n = digits10 (n div 10) @ [digit_char (n mod 10)]"
  by (subst digits10.simps) simp

lemma bitlen_pos: "0 < x \<Longrightarrow> bitlen x = bitlen (x div 2) + 1"
  by (subst compute_bitlen) simp

lemma bitlen_nonpos: "x \<le> 0 \<Longrightarrow> bitlen x = 0"
  by (subst compute_bitlen) simp

lemma replicate_numeral: "replicate (numeral k) x = x # replicate (pred_numeral k) x"
  by (simp add: numeral_eq_Suc)

lemmas float_eval = toTokenAmount_def js_pow10_def round_to_double_def floor_log2_ratio_def
  scaled_rne_def rne_div_def Let_def js_BigInt_def js_Math_round_def number_of_decimal_def
  bitlen_pos bitlen_nonpos dvd_eq_mod_eq_0

lemmas string_eval = fromTokenAmount_def toDisplay_spec_def bigint_div_def bigint_rem_def
  bigint_toString_def padStart_def strip_trailing_zeros_def digit_char_def Let_def replicate_numeral
  digits10_small digits10_large


lemmas parse_eval = parseInt10_def parseFloat_def exponent_part_def split_sign_def
  is_js_whitespace_def is_digit_def digits_value_def

lemma js_pow10_exact:
  assumes "k \<le> 22"
  shows "js_BigInt (js_pow10 k) = Inr (10 ^ k)"
proof -
  have "k = 0 \<or> k = 1 \<or> k = 2 \<or> k = 3 \<or> k = 4 \<or> k = 5 \<or> k = 6 \<or> k = 7 \<or> k = 8 \<or> k = 9 \<or> k = 10
      \<or> k = 11 \<or> k = 12 \<or> k = 13 \<or> k = 14 \<or> k = 15 \<or> k = 16 \<or> k = 17 \<or> k = 18 \<or> k = 19 \<or> k = 20
      \<or> k = 21 \<or> k = 22"
    using assms by (simp add: le_Suc_eq numeral_eq_Suc) 
  then show ?thesis
    by (elim disjE) (simp_all add: float_eval)
qed

section \<open>Rounding to binary64: error bounds\<close>

text \<open>
  In the normal range, \<open>round_to_double\<close> returns a finite value within the relative error
  \<open>2\<^sup>-\<^sup>5\<^sup>3\<close> of the exact ratio; \<^verbatim>\<open>BigInt(Math.round(y))\<close> is \<open>\<lfloor>y + 1/2\<rfloor>\<close>.
\<close>

lemma rne_div_error:
  assumes "0 < b"
  shows "\<bar>real (rne_div a b) - real a / real b\<bar> \<le> 1 / 2"
proof -
  define q where "q = a div b"
  define r where "r = a mod b"
  have a: "a = q * b + r" by (simp add: q_def r_def)
  have rb: "r < b" using assms by (simp add: r_def)
  have ab: "real a / real b = real q + real r / real b"
    using assms by (simp add: a field_simps)
  have bpos: "0 < real b" using assms by simp
  consider "2 * r < b" | "b < 2 * r" | "2 * r = b" by linarith
  then show ?thesis
  proof cases
    case 1
    then have "rne_div a b = q" by (simp add: rne_div_def q_def r_def Let_def)
    moreover have "real r / real b \<le> 1 / 2" using 1 bpos by (simp add: field_simps)
    moreover have "0 \<le> real r / real b" by simp
    ultimately show ?thesis using ab by simp
  next
    case 2
    then have "rne_div a b = q + 1" by (simp add: rne_div_def q_def r_def Let_def)
    moreover have "1 / 2 \<le> real r / real b" using 2 bpos by (simp add: field_simps)
    moreover have "real r / real b \<le> 1" using rb bpos by (simp add: field_simps)
    ultimately show ?thesis using ab by simp
  next
    case 3
    then have "rne_div a b = q \<or> rne_div a b = q + 1"
      by (simp add: rne_div_def q_def r_def Let_def)
    moreover have "real r / real b = 1 / 2" using 3 bpos by (simp add: field_simps)
    ultimately show ?thesis using ab by auto
  qed
qed

lemma scaled_rne_error:
  assumes "0 < b"
  shows "\<bar>real (scaled_rne a b ex) - real a / real b / 2 powr real_of_int ex\<bar> \<le> 1 / 2"
proof (cases "0 \<le> ex")
  case True
  have p: "2 powr real_of_int ex = 2 ^ nat ex" using True by (simp add: powr_real_of_int)
  have "\<bar>real (rne_div a (b * 2 ^ nat ex)) - real a / real (b * 2 ^ nat ex)\<bar> \<le> 1 / 2"
    by (rule rne_div_error) (use assms in simp)
  then show ?thesis using True by (simp add: scaled_rne_def p)
next
  case False
  have p: "2 powr real_of_int ex = inverse (2 ^ nat (- ex))" using False by (simp add: powr_real_of_int)
  have "\<bar>real (rne_div (a * 2 ^ nat (- ex)) b) - real (a * 2 ^ nat (- ex)) / real b\<bar> \<le> 1 / 2"
    by (rule rne_div_error) (use assms in simp)
  then show ?thesis using False by (simp add: scaled_rne_def p field_simps)
qed

lemma two_powr_nat: "0 \<le> k \<Longrightarrow> 2 powr real_of_int k = 2 ^ nat k"
  by (simp add: powr_real_of_int)

lemma bitlen_real_bounds:
  assumes "0 < a"
  shows "2 powr real_of_int (bitlen (int a) - 1) \<le> real a" "real a < 2 powr real_of_int (bitlen (int a))"
proof -
  have pos: "0 < int a" using assms by simp
  from bitlen_bounds[OF pos] have l: "2 ^ nat (bitlen (int a) - 1) \<le> int a" and u: "int a < 2 ^ nat (bitlen (int a))"
    by simp_all
  have b1: "1 \<le> bitlen (int a)"
  proof (rule ccontr)
    assume "\<not> 1 \<le> bitlen (int a)"
    then have "nat (bitlen (int a)) = 0" by simp
    with u pos show False by simp
  qed
  have "(2::nat) ^ nat (bitlen (int a) - 1) \<le> a" using l by (metis of_nat_le_iff of_nat_numeral of_nat_power)
  then have "real ((2::nat) ^ nat (bitlen (int a) - 1)) \<le> real a" by (rule of_nat_le_iff[THEN iffD2])
  then have "2 ^ nat (bitlen (int a) - 1) \<le> real a" by simp
  moreover have "2 powr real_of_int (bitlen (int a) - 1) = 2 ^ nat (bitlen (int a) - 1)"
    by (rule two_powr_nat) (use b1 in simp)
  ultimately show "2 powr real_of_int (bitlen (int a) - 1) \<le> real a" by (simp only:)
  have "a < (2::nat) ^ nat (bitlen (int a))" using u by (metis of_nat_less_iff of_nat_numeral of_nat_power)
  then have "real a < real ((2::nat) ^ nat (bitlen (int a)))" by (rule of_nat_less_iff[THEN iffD2])
  then have "real a < 2 ^ nat (bitlen (int a))" by simp
  moreover have "2 powr real_of_int (bitlen (int a)) = 2 ^ nat (bitlen (int a))"
    by (rule two_powr_nat) (use b1 in simp)
  ultimately show "real a < 2 powr real_of_int (bitlen (int a))" by (simp only:)
qed

lemma floor_log2_ratio_bounds:
  assumes "0 < a" "0 < b"
  shows "2 powr real_of_int (floor_log2_ratio a b) \<le> real a / real b"
    and "real a / real b < 2 powr (real_of_int (floor_log2_ratio a b) + 1)"
proof -
  define c where "c = bitlen (int a) - bitlen (int b)"
  define t where "t = (if 0 \<le> c then b * 2 ^ nat c \<le> a else b \<le> a * 2 ^ nat (- c))"
  have E: "floor_log2_ratio a b = (if t then c else c - 1)"
    by (simp add: floor_log2_ratio_def c_def t_def Let_def)
  have ra: "0 < real a" and rb: "0 < real b" using assms by simp_all
  have t_iff: "t \<longleftrightarrow> 2 powr real_of_int c \<le> real a / real b"
  proof (cases "0 \<le> c")
    case True
    have "t \<longleftrightarrow> real (b * 2 ^ nat c) \<le> real a" unfolding t_def using True by (simp only: if_True of_nat_le_iff)
    also have "\<dots> \<longleftrightarrow> 2 ^ nat c \<le> real a / real b" using rb by (simp add: field_simps)
    also have "\<dots> \<longleftrightarrow> 2 powr real_of_int c \<le> real a / real b" using True by (simp add: powr_real_of_int)
    finally show ?thesis .
  next
    case False
    have "t \<longleftrightarrow> real b \<le> real (a * 2 ^ nat (- c))" unfolding t_def using False by (simp only: if_False of_nat_le_iff)
    also have "\<dots> \<longleftrightarrow> inverse (2 ^ nat (- c)) \<le> real a / real b" using rb by (simp add: field_simps)
    also have "\<dots> \<longleftrightarrow> 2 powr real_of_int c \<le> real a / real b" using False by (simp add: powr_real_of_int)
    finally show ?thesis .
  qed
  have upper: "real a / real b < 2 powr (real_of_int c + 1)"
  proof -
    have "real a / real b < 2 powr real_of_int (bitlen (int a)) / 2 powr real_of_int (bitlen (int b) - 1)"
      using bitlen_real_bounds(2)[OF assms(1)] bitlen_real_bounds(1)[OF assms(2)] ra rb
      by (intro frac_less) simp_all
    also have "\<dots> = 2 powr (real_of_int (bitlen (int a)) - real_of_int (bitlen (int b) - 1))"
      by (simp only: powr_diff)
    also have "\<dots> = 2 powr (real_of_int c + 1)"
      by (rule arg_cong[where f="(powr) 2"]) (simp add: c_def)
    finally show ?thesis .
  qed
  have lower: "2 powr (real_of_int c - 1) \<le> real a / real b"
  proof -
    have "2 powr (real_of_int c - 1) = 2 powr (real_of_int (bitlen (int a) - 1) - real_of_int (bitlen (int b)))"
      by (rule arg_cong[where f="(powr) 2"]) (simp add: c_def)
    also have "\<dots> = 2 powr real_of_int (bitlen (int a) - 1) / 2 powr real_of_int (bitlen (int b))"
      by (simp only: powr_diff)
    also have "\<dots> \<le> real a / real b"
      using bitlen_real_bounds(1)[OF assms(1)] bitlen_real_bounds(2)[OF assms(2)] ra rb
      by (intro frac_le) simp_all
    finally show ?thesis .
  qed
  show "2 powr real_of_int (floor_log2_ratio a b) \<le> real a / real b"
    using t_iff lower by (simp add: E)
  show "real a / real b < 2 powr (real_of_int (floor_log2_ratio a b) + 1)"
    using t_iff upper by (simp add: E not_le)
qed


lemma round_to_double_normal:
  assumes a: "0 < a" and b: "0 < b"
    and lo: "- 1022 \<le> floor_log2_ratio a b" and hi: "floor_log2_ratio a b \<le> 1022"
  shows "\<exists>m e. round_to_double s a b = Fin s m e
           \<and> \<bar>real m * 2 powr real_of_int e - real a / real b\<bar> \<le> real a / real b * 2 powr (- 53)"
proof -
  define E where "E = floor_log2_ratio a b"
  define ex where "ex = E - 52"
  define q where "q = real a / real b"
  define m where "m = scaled_rne a b ex"
  have exmax: "max (floor_log2_ratio a b - 52) (- 1074) = ex" using lo by (simp add: ex_def E_def)
  have pw: "0 < (2::real) powr real_of_int ex" by simp
  have "\<bar>real m - q / 2 powr real_of_int ex\<bar> \<le> 1 / 2"
    unfolding m_def q_def by (rule scaled_rne_error[OF b])
  then have "\<bar>real m - q / 2 powr real_of_int ex\<bar> * 2 powr real_of_int ex \<le> 1 / 2 * 2 powr real_of_int ex"
    by (rule mult_right_mono) simp
  moreover have "\<bar>real m - q / 2 powr real_of_int ex\<bar> * 2 powr real_of_int ex = \<bar>real m * 2 powr real_of_int ex - q\<bar>"
  proof -
    have "\<bar>real m - q / 2 powr real_of_int ex\<bar> * 2 powr real_of_int ex
        = \<bar>(real m - q / 2 powr real_of_int ex) * 2 powr real_of_int ex\<bar>"
      by (simp add: abs_mult)
    also have "(real m - q / 2 powr real_of_int ex) * 2 powr real_of_int ex = real m * 2 powr real_of_int ex - q"
      by (simp add: left_diff_distrib)
    finally show ?thesis .
  qed
  moreover have "1 / 2 * 2 powr real_of_int ex = 2 powr real_of_int E * 2 powr (- 53)"
  proof -
    have "1 / 2 * 2 powr real_of_int ex = 2 powr (- 1) * 2 powr real_of_int ex"
      by (simp add: powr_minus)
    also have "\<dots> = 2 powr (- 1 + real_of_int ex)" by (simp only: powr_add)
    also have "\<dots> = 2 powr (real_of_int E + (- 53))"
      by (rule arg_cong[where f="(powr) 2"]) (simp add: ex_def)
    also have "\<dots> = 2 powr real_of_int E * 2 powr (- 53)" by (simp only: powr_add)
    finally show ?thesis .
  qed
  moreover have "2 powr real_of_int E * 2 powr (- 53) \<le> q * 2 powr (- 53)"
    unfolding q_def E_def by (rule mult_right_mono[OF floor_log2_ratio_bounds(1)[OF a b]]) simp
  ultimately have err: "\<bar>real m * 2 powr real_of_int ex - q\<bar> \<le> q * 2 powr (- 53)" by linarith
  have exle: "ex \<le> 970" using hi by (simp add: ex_def E_def)
  have val53: "real ((2::nat) ^ 52) * 2 powr real_of_int (ex + 1) = real ((2::nat) ^ 53) * 2 powr real_of_int ex"
  proof -
    have "2 powr real_of_int (ex + 1) = 2 powr (real_of_int ex + 1)"
      by (rule arg_cong[where f="(powr) 2"]) simp
    also have "\<dots> = 2 powr real_of_int ex * 2 powr 1" by (simp only: powr_add)
    finally show ?thesis by simp
  qed
  have rd: "round_to_double s a b = (if m = 2 ^ 53 then Fin s (2 ^ 52) (ex + 1) else Fin s m ex)"
    using a exle by (simp add: round_to_double_def Let_def exmax m_def[symmetric])
  show ?thesis
  proof (cases "m = 2 ^ 53")
    case True
    with rd have "round_to_double s a b = Fin s (2 ^ 52) (ex + 1)" by simp
    moreover have "\<bar>real ((2::nat) ^ 52) * 2 powr real_of_int (ex + 1) - real a / real b\<bar> \<le> real a / real b * 2 powr (- 53)"
      using err True unfolding val53 q_def by simp
    ultimately show ?thesis by blast
  next
    case False
    with rd have "round_to_double s a b = Fin s m ex" by simp
    with err show ?thesis unfolding q_def by blast
  qed
qed

lemma floor_log2_ratio_range:
  assumes a: "0 < a" and b: "0 < b"
    and lo: "2 powr real_of_int L \<le> real a / real b" and hi: "real a / real b < 2 powr real_of_int H"
  shows "L \<le> floor_log2_ratio a b" "floor_log2_ratio a b < H"
proof -
  from floor_log2_ratio_bounds(2)[OF a b] lo
  have "2 powr real_of_int L < 2 powr (real_of_int (floor_log2_ratio a b) + 1)" by linarith
  then have "real_of_int L < real_of_int (floor_log2_ratio a b) + 1" by simp
  then show "L \<le> floor_log2_ratio a b" by linarith
  from floor_log2_ratio_bounds(1)[OF a b] hi
  have "2 powr real_of_int (floor_log2_ratio a b) < 2 powr real_of_int H" by linarith
  then have "real_of_int (floor_log2_ratio a b) < real_of_int H" by simp
  then show "floor_log2_ratio a b < H" by linarith
qed

lemma valof_Fin: "valof (Fin s m e) = (if s then - 1 else 1) * real m * 2 powr real_of_int e"
  by (simp add: valof_def)

lemma js_BigInt_valof:
  assumes "js_BigInt x = Inr i"
  shows "\<exists>s m e. x = Fin s m e \<and> valof x = real_of_int i"
proof (cases x)
  case (Fin s m e)
  show ?thesis
  proof (cases "0 \<le> e")
    case True
    with assms Fin have i: "i = (if s then - 1 else 1) * int (m * 2 ^ nat e)" by (simp add: js_BigInt_def)
    have "2 powr real_of_int e = 2 ^ nat e" using True by (rule two_powr_nat)
    then have "valof x = real_of_int i" unfolding Fin valof_Fin i by simp
    with Fin show ?thesis by blast
  next
    case False
    with assms Fin have d: "2 ^ nat (- e) dvd m" and i: "i = (if s then - 1 else 1) * int (m div 2 ^ nat (- e))"
      by (simp_all add: js_BigInt_def split: if_splits)
    from d obtain k where k: "m = 2 ^ nat (- e) * k" by (auto simp: dvd_def)
    have p: "2 powr real_of_int e = inverse (2 ^ nat (- e))" using False by (simp add: powr_real_of_int)
    have "m div 2 ^ nat (- e) = k" using k by simp
    then have "valof x = real_of_int i" unfolding Fin valof_Fin i p using k by simp
    with Fin show ?thesis by blast
  qed
qed (use assms in \<open>simp_all add: js_BigInt_def\<close>)

lemma js_BigInt_Math_round:
  "js_BigInt (js_Math_round (Fin s m e)) = Inr \<lfloor>valof (Fin s m e) + 1 / 2\<rfloor>"
proof (cases "0 \<le> e")
  case True
  have p: "2 powr real_of_int e = 2 ^ nat e" using True by (rule two_powr_nat)
  have "valof (Fin s m e) = real_of_int ((if s then - 1 else 1) * int (m * 2 ^ nat e))"
    unfolding valof_Fin p by simp
  then have "\<lfloor>valof (Fin s m e) + 1 / 2\<rfloor> = (if s then - 1 else 1) * int (m * 2 ^ nat e)"
    by (simp only:) linarith
  then show ?thesis using True by (simp add: js_Math_round_def js_BigInt_def)
next
  case False
  define j where "j = nat (- e)"
  define num where "num = (if s then - 2 else 2) * int m + 2 ^ j"
  define v where "v = num div 2 ^ (j + 1)"
  have p: "2 powr real_of_int e = inverse (2 ^ j)" using False by (simp add: powr_real_of_int j_def)
  have "valof (Fin s m e) + 1 / 2 = real_of_int num / real_of_int (2 ^ (j + 1))"
    unfolding valof_Fin p num_def by (simp add: field_simps)
  then have fl: "\<lfloor>valof (Fin s m e) + 1 / 2\<rfloor> = v"
    unfolding v_def by (simp only: floor_divide_of_int_eq)
  have sgnv: "(if s then - 1 else 1) * int (nat \<bar>v\<bar>) = v"
  proof (cases s)
    case True
    have "num \<le> 2 ^ j" unfolding num_def using True by simp
    moreover have "(0::int) < 2 ^ j" by simp
    moreover have "(2::int) ^ (j + 1) = 2 * 2 ^ j" by simp
    ultimately have "num < 2 ^ (j + 1)" by linarith
    note \<open>num < 2 ^ (j + 1)\<close>
    have "v \<le> 0"
    proof (cases "0 \<le> num")
      case True
      from True \<open>num < 2 ^ (j + 1)\<close> have "num div 2 ^ (j + 1) = 0" by (rule div_pos_pos_trivial)
      then show ?thesis by (simp add: v_def)
    next
      case False
      then have "num div 2 ^ (j + 1) \<le> 0" by (intro div_nonpos_pos_le0) simp_all
      then show ?thesis by (simp add: v_def)
    qed
    then show ?thesis using True by simp
  next
    case False
    have "0 \<le> num" unfolding num_def using False by simp
    then have "0 \<le> v" unfolding v_def by (simp add: pos_imp_zdiv_nonneg_iff)
    then show ?thesis using False by simp
  qed
  have "js_Math_round (Fin s m e) = Fin s (nat \<bar>v\<bar>) 0"
    using False by (simp add: js_Math_round_def Let_def v_def num_def j_def)
  then have "js_BigInt (js_Math_round (Fin s m e)) = Inr ((if s then - 1 else 1) * int (nat \<bar>v\<bar>))"
    by (simp add: js_BigInt_def)
  with sgnv fl show ?thesis by simp
qed


lemma js_pow10_value:
  assumes "k \<le> 22"
  shows "\<exists>m e. js_pow10 k = Fin False m e \<and> real m * 2 powr real_of_int e = 10 ^ k"
proof -
  from js_BigInt_valof[OF js_pow10_exact[OF assms]]
  obtain s m e where x: "js_pow10 k = Fin s m e" and v: "valof (js_pow10 k) = real_of_int (10 ^ k)"
    by blast
  have "is_negative (js_pow10 k) = False"
    by (simp add: js_pow10_def round_to_double_def Let_def is_negative_def)
  with x have s: "s = False" by (simp add: is_negative_def)
  from v x s have "real m * 2 powr real_of_int e = 10 ^ k" by (simp add: valof_Fin)
  with x s show ?thesis by blast
qed

lemma two_powr_neg: "k < 0 \<Longrightarrow> 2 powr real_of_int k = inverse (2 ^ nat (- k))"
  by (simp add: powr_real_of_int)

lemma js_mult_Fin_ratio:
  assumes "0 < m1" "0 < m2"
  shows "\<exists>a b. 0 < a \<and> 0 < b \<and> js_mult (Fin s1 m1 e1) (Fin s2 m2 e2) = round_to_double (s1 \<noteq> s2) a b
           \<and> real a / real b = (real m1 * 2 powr real_of_int e1) * (real m2 * 2 powr real_of_int e2)"
proof (cases "0 \<le> e1 + e2")
  case True
  have p: "2 powr real_of_int (e1 + e2) = 2 ^ nat (e1 + e2)" using True by (rule two_powr_nat)
  have "2 powr real_of_int e1 * 2 powr real_of_int e2 = 2 powr real_of_int (e1 + e2)"
    by (simp add: powr_add)
  then have "real (m1 * m2 * 2 ^ nat (e1 + e2)) / real 1
      = (real m1 * 2 powr real_of_int e1) * (real m2 * 2 powr real_of_int e2)"
    unfolding p by (simp add: algebra_simps)
  moreover have "js_mult (Fin s1 m1 e1) (Fin s2 m2 e2) = round_to_double (s1 \<noteq> s2) (m1 * m2 * 2 ^ nat (e1 + e2)) 1"
    using True by (simp add: Let_def)
  moreover have "0 < m1 * m2 * 2 ^ nat (e1 + e2)" using assms by simp
  ultimately show ?thesis by (intro exI[of _ "m1 * m2 * 2 ^ nat (e1 + e2)"] exI[of _ "1::nat"]) simp
next
  case False
  have p: "2 powr real_of_int (e1 + e2) = inverse (2 ^ nat (- (e1 + e2)))"
    by (rule two_powr_neg) (use False in simp)
  have "2 powr real_of_int e1 * 2 powr real_of_int e2 = 2 powr real_of_int (e1 + e2)"
    by (simp add: powr_add)
  then have "real (m1 * m2) / real (2 ^ nat (- (e1 + e2)))
      = (real m1 * 2 powr real_of_int e1) * (real m2 * 2 powr real_of_int e2)"
    unfolding p by (simp add: algebra_simps divide_inverse)
  moreover have "js_mult (Fin s1 m1 e1) (Fin s2 m2 e2) = round_to_double (s1 \<noteq> s2) (m1 * m2) (2 ^ nat (- (e1 + e2)))"
    using False by (simp add: Let_def)
  moreover have "0 < m1 * m2" using assms by simp
  ultimately show ?thesis
    by (intro exI[of _ "m1 * m2"] exI[of _ "2 ^ nat (- (e1 + e2))"]) simp
qed

lemma u_val: "(2::real) powr (- 53) = 1 / 2 ^ 53"
  by (simp add: powr_neg_numeral)

lemma round_to_double_pos:
  assumes a: "0 < a" and b: "0 < b"
    and lo: "2 powr real_of_int L \<le> real a / real b" and hi: "real a / real b < 2 powr real_of_int H"
    and L: "- 1022 \<le> L" and H: "H \<le> 1023"
  shows "\<exists>m e. round_to_double s a b = Fin s m e \<and> 0 < m
           \<and> \<bar>real m * 2 powr real_of_int e - real a / real b\<bar> \<le> real a / real b * (1 / 2 ^ 53)"
proof -
  from floor_log2_ratio_range[OF a b lo hi] L H
  have "- 1022 \<le> floor_log2_ratio a b" "floor_log2_ratio a b \<le> 1022" by simp_all
  from round_to_double_normal[OF a b this, of s] obtain m e
    where r: "round_to_double s a b = Fin s m e"
      and err: "\<bar>real m * 2 powr real_of_int e - real a / real b\<bar> \<le> real a / real b * 2 powr (- 53)"
    by blast
  have q: "0 < real a / real b" using a b by simp
  have "real a / real b * (1 / 2 ^ 53) < real a / real b" using q by simp
  with err have "0 < real m * 2 powr real_of_int e" unfolding u_val by linarith
  then have "0 < m" by (simp add: zero_less_mult_iff)
  with r err show ?thesis unfolding u_val by blast
qed

lemma toTokenAmount_signed_exact:
  assumes nk: "n \<le> k" and k: "k \<le> 22" and T: "N * 10 ^ (k - n) < 2 ^ 51"
  shows "toTokenAmount (number_of_decimal s N n) k = Inr ((if s then - 1 else 1) * int (N * 10 ^ (k - n)))"
proof (cases "N = 0")
  case True
  from js_pow10_value[OF k] obtain m2 e2 where p: "js_pow10 k = Fin False m2 e2" by blast
  show ?thesis
    by (simp add: True toTokenAmount_def number_of_decimal_def p round_to_double_def Let_def
        js_Math_round_def js_BigInt_def)
next
  case False
  then have Npos: "0 < N" by simp
  define d where "d = real N / real (10 ^ n)"
  define Tr where "Tr = real (N * 10 ^ (k - n))"
  define u where "u = (1::real) / 2 ^ 53"
  have dpos: "0 < d" using Npos by (simp add: d_def)
  have kn: "(10::real) ^ k = 10 ^ n * 10 ^ (k - n)"
    using nk by (simp add: power_add[symmetric])
  have dT: "d * 10 ^ k = Tr" unfolding d_def Tr_def kn by simp
  have T1: "1 \<le> Tr"
  proof -
    have "0 < N * 10 ^ (k - n)" using Npos by simp
    then have "1 \<le> N * 10 ^ (k - n)" by linarith
    then have "real 1 \<le> real (N * 10 ^ (k - n))" by (rule of_nat_le_iff[THEN iffD2])
    then show ?thesis unfolding Tr_def by simp
  qed
  have T2: "Tr \<le> 2 ^ 51 - 1"
  proof -
    from T have "N * 10 ^ (k - n) \<le> 2 ^ 51 - 1" by simp
    then have "real (N * 10 ^ (k - n)) \<le> real (2 ^ 51 - 1)" by (rule of_nat_le_iff[THEN iffD2])
    then show ?thesis unfolding Tr_def by simp
  qed
  have d_le: "d \<le> Tr"
  proof -
    have "d * 1 \<le> d * 10 ^ k" using dpos by (intro mult_left_mono) simp_all
    then show ?thesis using dT by simp
  qed
  have d_ge: "1 / 10 ^ 22 \<le> d"
  proof -
    have "(10::real) ^ n \<le> 10 ^ 22" using nk k by (intro power_increasing) simp_all
    then have "1 / (10::real) ^ 22 \<le> 1 / 10 ^ n" by (intro divide_left_mono) simp_all
    also have "\<dots> \<le> real N / 10 ^ n" using Npos by (intro divide_right_mono) simp_all
    finally show ?thesis by (simp add: d_def)
  qed
  have lo1: "2 powr real_of_int (- 74) \<le> real N / real (10 ^ n)"
  proof -
    have "(2::real) powr real_of_int (- 74) = 1 / 2 ^ 74" by (simp add: powr_neg_numeral)
    also have "\<dots> \<le> 1 / 10 ^ 22" by simp
    finally have "2 powr real_of_int (- 74) \<le> d" using d_ge by (rule order_trans)
    then show ?thesis unfolding d_def .
  qed
  have hi1: "real N / real (10 ^ n) < 2 powr real_of_int 51"
  proof -
    have "d < 2 ^ 51" using d_le T2 by simp
    moreover have "(2::real) powr real_of_int 51 = 2 ^ 51" by simp
    ultimately have "d < 2 powr real_of_int 51" by (simp only:)
    then show ?thesis unfolding d_def .
  qed
  from round_to_double_pos[OF Npos _ lo1 hi1, of s] obtain m1 e1
    where x: "number_of_decimal s N n = Fin s m1 e1" and m1: "0 < m1"
      and ex: "\<bar>real m1 * 2 powr real_of_int e1 - d\<bar> \<le> d * u"
    unfolding number_of_decimal_def d_def u_def by auto
  from js_pow10_value[OF k] obtain m2 e2
    where p: "js_pow10 k = Fin False m2 e2" and pv: "real m2 * 2 powr real_of_int e2 = 10 ^ k"
    by blast
  have m2: "0 < m2"
  proof (rule ccontr)
    assume "\<not> 0 < m2"
    then have "m2 = 0" by simp
    with pv show False by simp
  qed
  define xv where "xv = real m1 * 2 powr real_of_int e1"
  from js_mult_Fin_ratio[OF m1 m2, of s e1 False e2] obtain a b
    where a: "0 < a" and b: "0 < b"
      and mult: "js_mult (Fin s m1 e1) (Fin False m2 e2) = round_to_double s a b"
      and ab: "real a / real b = xv * 10 ^ k"
    unfolding xv_def pv by auto
  define P where "P = xv * 10 ^ k"
  have PT: "\<bar>P - Tr\<bar> \<le> Tr * u"
  proof -
    have "\<bar>P - Tr\<bar> = \<bar>(xv - d) * 10 ^ k\<bar>" unfolding P_def dT[symmetric] by (simp add: left_diff_distrib)
    also have "\<dots> = \<bar>xv - d\<bar> * 10 ^ k" by (simp add: abs_mult)
    also have "\<dots> \<le> d * u * 10 ^ k" using ex unfolding xv_def by (intro mult_right_mono) simp_all
    also have "\<dots> = Tr * u" using dT by (simp add: mult.commute mult.left_commute)
    finally show ?thesis .
  qed
  have u_pos: "0 < u" and u_small: "u \<le> 1 / 2" by (simp_all add: u_def)
  have Tu: "Tr * u \<le> (2 ^ 51 - 1) * u" using T2 u_pos by (intro mult_right_mono) simp_all
  have Plo: "1 / 2 \<le> P"
  proof -
    have "Tr * u \<le> Tr * (1 / 2)" using u_small T1 by (intro mult_left_mono) simp_all
    with PT T1 show ?thesis by linarith
  qed
  have Phi: "P < 2 ^ 51"
  proof -
    have "(2 ^ 51 - 1) * u < (1::real)" by (simp add: u_def)
    with PT Tu T2 show ?thesis by linarith
  qed
  have lo2: "2 powr real_of_int (- 1) \<le> real a / real b"
  proof -
    have "(2::real) powr real_of_int (- 1) = 1 / 2" by (simp add: powr_neg_one)
    with Plo have "2 powr real_of_int (- 1) \<le> P" by (simp only:)
    then show ?thesis unfolding ab P_def .
  qed
  have hi2: "real a / real b < 2 powr real_of_int 51"
  proof -
    have "(2::real) powr real_of_int 51 = 2 ^ 51" by simp
    with Phi have "P < 2 powr real_of_int 51" by (simp only:)
    then show ?thesis unfolding ab P_def .
  qed
  from round_to_double_pos[OF a b lo2 hi2, of s] obtain m e
    where y: "round_to_double s a b = Fin s m e"
      and ey: "\<bar>real m * 2 powr real_of_int e - P\<bar> \<le> P * u"
    unfolding ab P_def u_def by auto
  define yv where "yv = real m * 2 powr real_of_int e"
  have Pu: "P * u \<le> (Tr + Tr * u) * u"
  proof -
    have "P \<le> Tr + Tr * u" using PT by linarith
    then show ?thesis using u_pos by (intro mult_right_mono) simp_all
  qed
  have "(Tr + Tr * u) * u + Tr * u = Tr * (u * (2 + u))" by (simp add: algebra_simps)
  also have "\<dots> \<le> (2 ^ 51 - 1) * (u * (2 + u))" using T2 u_pos by (intro mult_right_mono) simp_all
  also have "\<dots> < 1 / 2" by (simp add: u_def)
  finally have bound: "(Tr + Tr * u) * u + Tr * u < 1 / 2" .
  have close: "\<bar>yv - Tr\<bar> < 1 / 2"
    using ey PT Pu bound unfolding yv_def by linarith
  have cast: "real_of_int (int (N * 10 ^ (k - n))) = Tr" by (simp add: Tr_def)
  have v: "valof (Fin s m e) = (if s then - yv else yv)" by (simp add: valof_Fin yv_def)
  have "\<lfloor>valof (Fin s m e) + 1 / 2\<rfloor> = (if s then - 1 else 1) * int (N * 10 ^ (k - n))"
  proof (cases s)
    case True
    have "\<lfloor>- yv + 1 / 2\<rfloor> = - int (N * 10 ^ (k - n))"
    proof (rule floor_unique)
      show "real_of_int (- int (N * 10 ^ (k - n))) \<le> - yv + 1 / 2"
        unfolding of_int_minus cast using close by linarith
      show "- yv + 1 / 2 < real_of_int (- int (N * 10 ^ (k - n))) + 1"
        unfolding of_int_minus cast using close by linarith
    qed
    with True v show ?thesis by simp
  next
    case False
    have "\<lfloor>yv + 1 / 2\<rfloor> = int (N * 10 ^ (k - n))"
    proof (rule floor_unique)
      show "real_of_int (int (N * 10 ^ (k - n))) \<le> yv + 1 / 2"
        unfolding cast using close by linarith
      show "yv + 1 / 2 < real_of_int (int (N * 10 ^ (k - n))) + 1"
        unfolding cast using close by linarith
    qed
    with False v show ?thesis by simp
  qed
  then show ?thesis
    unfolding toTokenAmount_def x p mult y js_BigInt_Math_round by simp
qed

lemma toTokenAmount_exact:
  assumes nk: "n \<le> k" and k: "k \<le> 22" and T: "N * 10 ^ (k - n) < 2 ^ 51"
  shows "toTokenAmount (number_of_decimal False N n) k = Inr (int (N * 10 ^ (k - n)))"
  using toTokenAmount_signed_exact[OF assms, of False] by simp
section \<open>Token amount codec\<close>

lemma fromTokenAmount_exact:
  assumes "k \<le> 22"
  shows "fromTokenAmount (int B) k = Inr (toDisplay_spec B k)"
proof -
  have dv: "sgn (int B) * sgn ((10::int) ^ k) * (\<bar>int B\<bar> div \<bar>10 ^ k\<bar>) = int (B div 10 ^ k)"
    by (cases "B = 0") (simp_all add: zdiv_int)
  have md: "sgn (int B) * (\<bar>int B\<bar> mod \<bar>10 ^ k\<bar>) = int (B mod 10 ^ k)"
    by (cases "B = 0") (simp_all add: zmod_int)
  have nz: "(10::int) ^ k \<noteq> 0" by simp
  have ts: "\<And>x. bigint_toString (int x) = digits10 x" by (simp add: bigint_toString_def)
  have flip: "\<And>P (a::string) b. (if \<not> P then a else b) = (if P then b else a)" by simp
  show ?thesis
    unfolding fromTokenAmount_def js_pow10_exact[OF assms] bigint_div_def bigint_rem_def dv md
      toDisplay_spec_def Let_def
    by (simp only: sum.case nz if_False dv md ts flip)
qed

lemma strip_zeros_append: "strip_trailing_zeros (s @ replicate j (CHR ''0'')) = strip_trailing_zeros s"
  by (simp add: strip_trailing_zeros_def dropWhile_append3 dropWhile_append)

lemma strip_zeros_replicate: "strip_trailing_zeros (replicate j (CHR ''0'')) = []"
  using strip_zeros_append[of "[]" j] by (simp add: strip_trailing_zeros_def)

lemma digits10_times_10:
  assumes "0 < M"
  shows "digits10 (M * 10) = digits10 M @ [CHR ''0'']"
proof -
  have "10 \<le> M * 10" using assms by simp
  then have "digits10 (M * 10) = digits10 (M * 10 div 10) @ [digit_char (M * 10 mod 10)]"
    by (rule digits10_large)
  then show ?thesis by (simp add: digit_char_def)
qed

lemma digits10_times_pow10:
  assumes "0 < M"
  shows "digits10 (M * 10 ^ j) = digits10 M @ replicate j (CHR ''0'')"
proof (induction j)
  case 0
  then show ?case by simp
next
  case (Suc j)
  have e: "M * 10 ^ Suc j = (M * 10 ^ j) * 10" by simp
  have "digits10 ((M * 10 ^ j) * 10) = digits10 (M * 10 ^ j) @ [CHR ''0'']"
    by (rule digits10_times_10) (use assms in simp)
  then have "digits10 (M * 10 ^ Suc j) = (digits10 M @ replicate j (CHR ''0'')) @ [CHR ''0'']"
    unfolding e Suc .
  then show ?case by (simp add: replicate_append_same)
qed

lemma length_digits10:
  "M < 10 ^ n \<Longrightarrow> 0 < n \<Longrightarrow> length (digits10 M) \<le> n"
proof (induction n arbitrary: M)
  case 0
  then show ?case by simp
next
  case (Suc n)
  show ?case
  proof (cases "M < 10")
    case True
    then show ?thesis by (simp add: digits10_small)
  next
    case False
    then have big: "10 \<le> M" by simp
    have npos: "0 < n"
    proof (rule ccontr)
      assume "\<not> 0 < n"
      with Suc.prems big show False by simp
    qed
    have "M div 10 < 10 ^ n" using Suc.prems(1) by (simp add: less_mult_imp_div_less mult.commute)
    from Suc.IH[OF this npos] show ?thesis by (simp add: digits10_large[OF big])
  qed
qed

lemma toDisplay_spec_scale: "toDisplay_spec (N * 10 ^ j) (n + j) = toDisplay_spec N n"
proof -
  define M where "M = N mod 10 ^ n"
  have w: "N * 10 ^ j div 10 ^ (n + j) = N div 10 ^ n"
    by (simp add: power_add)
  have f: "N * 10 ^ j mod 10 ^ (n + j) = M * 10 ^ j"
    by (simp add: power_add M_def mod_mult_mult2)
  have fs: "strip_trailing_zeros (padStart (n + j) (CHR ''0'') (digits10 (M * 10 ^ j)))
          = strip_trailing_zeros (padStart n (CHR ''0'') (digits10 M))"
  proof (cases "M = 0")
    case True
    have "\<And>i. padStart i (CHR ''0'') (digits10 0) = replicate (i - 1) (CHR ''0'') @ replicate 1 (CHR ''0'')"
      by (simp add: padStart_def digits10_small digit_char_def)
    then have "\<And>i. strip_trailing_zeros (padStart i (CHR ''0'') (digits10 0)) = []"
      by (simp only: replicate_add[symmetric] strip_zeros_replicate)
    then show ?thesis by (simp add: True)
  next
    case False
    then have Mpos: "0 < M" by simp
    have Mlt: "M < 10 ^ n" by (simp add: M_def)
    have npos: "0 < n"
    proof (rule ccontr)
      assume "\<not> 0 < n"
      with Mlt Mpos show False by simp
    qed
    have len: "length (digits10 M) \<le> n" by (rule length_digits10[OF Mlt npos])
    have e1: "digits10 (M * 10 ^ j) = digits10 M @ replicate j (CHR ''0'')"
      by (rule digits10_times_pow10[OF Mpos])
    have e2: "n + j - length (digits10 M @ replicate j (CHR ''0'')) = n - length (digits10 M)"
      by simp
    have "padStart (n + j) (CHR ''0'') (digits10 (M * 10 ^ j))
        = padStart n (CHR ''0'') (digits10 M) @ replicate j (CHR ''0'')"
      unfolding padStart_def e1 e2 by (simp only: append_assoc)
    then show ?thesis by (simp only: strip_zeros_append)
  qed
  show ?thesis
    unfolding toDisplay_spec_def Let_def w f M_def[symmetric] fs ..
qed

text \<open>
  C1 (amended). Round trip of the codec.  Let \<open>d\<close> be the non-negative decimal with digits \<open>N\<close>,
  the last \<open>n\<close> of them after the point, and let \<open>decimals \<ge> n\<close>.  When \<open>decimals \<le> 22\<close> and the
  amount in base units \<open>d \<sqdot> 10\<^sup>d\<^sup>e\<^sup>c\<^sup>i\<^sup>m\<^sup>a\<^sup>l\<^sup>s\<close> is below \<open>2\<^sup>5\<^sup>1\<close>, \<^verbatim>\<open>toTokenAmount\<close> of the Number
  that \<open>d\<close> denotes is exactly that amount, and \<^verbatim>\<open>fromTokenAmount\<close> turns it back into the
  string form of \<open>d\<close> with the trailing zeros of the fraction stripped.  The arithmetic of
  \<^verbatim>\<open>toTokenAmount\<close> is floating point (its argument is a \<^verbatim>\<open>number\<close>), so beyond these bounds
  the round trip is not promised.
\<close>

theorem token_amount_round_trip:
  assumes "n \<le> decimals" and "decimals \<le> 22" and "N * 10 ^ (decimals - n) < 2 ^ 51"
  shows "toTokenAmount (number_of_decimal False N n) decimals = Inr (int (N * 10 ^ (decimals - n)))
       \<and> fromTokenAmount (int (N * 10 ^ (decimals - n))) decimals = Inr (toDisplay_spec N n)"
proof -
  have "toDisplay_spec (N * 10 ^ (decimals - n)) (n + (decimals - n)) = toDisplay_spec N n"
    by (rule toDisplay_spec_scale)
  with assms(1) have eq: "toDisplay_spec (N * 10 ^ (decimals - n)) decimals = toDisplay_spec N n" by simp
  show ?thesis
  proof (intro conjI)
    show "toTokenAmount (number_of_decimal False N n) decimals = Inr (int (N * 10 ^ (decimals - n)))"
      by (rule toTokenAmount_exact[OF assms])
    show "fromTokenAmount (int (N * 10 ^ (decimals - n))) decimals = Inr (toDisplay_spec N n)"
      unfolding fromTokenAmount_exact[OF assms(2)] eq ..
  qed
qed

text \<open>The scenario of the specification: 1.5 at 9 decimals is 1500000000 and comes back as "1.5".\<close>

theorem token_amount_round_trip_witness:
  "(1::nat) \<le> 9 \<and> (9::nat) \<le> 22 \<and> (15::nat) * 10 ^ (9 - 1) < 2 ^ 51
   \<and> toTokenAmount (number_of_decimal False 15 1) 9 = Inr 1500000000
   \<and> fromTokenAmount 1500000000 9 = Inr ''1.5''"
proof -
  have d: "toDisplay_spec 15 1 = ''1.5''" by (simp add: string_eval)
  from token_amount_round_trip[of 1 9 15] d show ?thesis by simp
qed

text \<open>
  C1 as stated fails: 32.2 has one fractional digit, and at 14 decimals the product
  \<^verbatim>\<open>32.2 * 10 ** 14\<close> is the Number 3220000000000000.5, which \<^verbatim>\<open>Math.round\<close> takes to
  3220000000000001; the way back gives "32.20000000000001", not "32.2".
\<close>

theorem token_amount_round_trip_counterexample:
  "(1::nat) \<le> 14
   \<and> toTokenAmount (number_of_decimal False 322 1) 14 = Inr 3220000000000001
   \<and> fromTokenAmount 3220000000000001 14 = Inr ''32.20000000000001''
   \<and> toDisplay_spec 322 1 = ''32.2''"
  by (simp add: float_eval string_eval)

subsection \<open>Invalid input to \<^verbatim>\<open>toTokenAmount\<close>\<close>

lemma round_to_double_not_NaN: "round_to_double s a b \<noteq> NaN"
  by (simp add: round_to_double_def Let_def)












subsection \<open>\<^verbatim>\<open>fromTokenAmount\<close> against exact integer arithmetic\<close>

text \<open>Up to 22 decimals the divisor is exact, and the two definitions agree.\<close>

lemma fromTokenAmount_agrees_upto_22:
  "decimals \<le> 22 \<Longrightarrow> fromTokenAmount (int baseUnits) decimals = Inr (toDisplay_spec baseUnits decimals)"
  by (rule fromTokenAmount_exact)

text \<open>
  Beyond that the divisor cannot be exact, however \<^verbatim>\<open>10 ** 24\<close> is rounded: no Number with a
  53-bit significand converts to the integer \<open>10\<^sup>2\<^sup>4 = 5\<^sup>2\<^sup>4 \<cdot> 2\<^sup>2\<^sup>4\<close>, since \<open>5\<^sup>2\<^sup>4 > 2\<^sup>5\<^sup>3\<close>.
\<close>

lemma two_pow_split: "k \<le> j \<Longrightarrow> (2::nat) ^ j = 2 ^ (j - k) * 2 ^ k"
  by (simp add: power_add[symmetric])

lemma ten_pow_24_not_binary64_nat:
  assumes "m < 2 ^ 53"
  shows "m * 2 ^ j \<noteq> (10::nat) ^ 24"
proof
  assume eq: "m * 2 ^ j = (10::nat) ^ 24"
  have ten: "(10::nat) ^ 24 = 5 ^ 24 * 2 ^ 24" by simp
  show False
  proof (cases "j \<le> 24")
    case True
    then have "(2::nat) ^ 24 = 2 ^ (24 - j) * 2 ^ j" by (rule two_pow_split)
    with eq ten have "m * 2 ^ j = (5 ^ 24 * 2 ^ (24 - j)) * 2 ^ j" by (simp only: mult.assoc)
    then have "m = 5 ^ 24 * 2 ^ (24 - j)" by simp
    moreover have "(5::nat) ^ 24 * 1 \<le> 5 ^ 24 * 2 ^ (24 - j)" by (intro mult_le_mono2) simp
    ultimately have "(5::nat) ^ 24 \<le> m" by simp
    with assms show False by simp
  next
    case False
    then have "(2::nat) ^ j = 2 ^ (j - 24) * 2 ^ 24" by (intro two_pow_split) simp
    with eq ten have "(m * 2 ^ (j - 24)) * 2 ^ 24 = 5 ^ 24 * 2 ^ 24" by (simp only: mult.assoc)
    then have m: "m * 2 ^ (j - 24) = 5 ^ 24" by simp
    from False obtain i where "j - 24 = Suc i" by (cases "j - 24") simp_all
    then have "(2::nat) ^ (j - 24) = 2 * 2 ^ i" by simp
    with m have "(5::nat) ^ 24 = 2 * (m * 2 ^ i)" by simp
    then have "even ((5::nat) ^ 24)" by (simp only: dvd_triv_left)
    then show False by simp
  qed
qed

lemma signed_nat_eq_pos: "(if s then - 1 else 1) * int k = r \<Longrightarrow> 0 < r \<Longrightarrow> int k = r"
  by (cases s) auto

lemma js_BigInt_never_10_pow_24:
  assumes "m < 2 ^ 53"
  shows "js_BigInt (Fin s m e) \<noteq> Inr (10 ^ 24)"
proof
  assume b: "js_BigInt (Fin s m e) = Inr (10 ^ 24)"
  show False
  proof (cases "0 \<le> e")
    case True
    with b have "(if s then - 1 else 1) * int (m * 2 ^ nat e) = 10 ^ 24" by (simp add: js_BigInt_def)
    then have "int (m * 2 ^ nat e) = 10 ^ 24" by (rule signed_nat_eq_pos) simp
    then have "int (m * 2 ^ nat e) = int (10 ^ 24)" by simp
    then have "m * 2 ^ nat e = 10 ^ 24" by (simp only: of_nat_eq_iff)
    with ten_pow_24_not_binary64_nat[OF assms] show False by blast
  next
    case False
    with b have "(if s then - 1 else 1) * int (m div 2 ^ nat (- e)) = 10 ^ 24"
      by (simp add: js_BigInt_def split: if_splits)
    then have "int (m div 2 ^ nat (- e)) = 10 ^ 24" by (rule signed_nat_eq_pos) simp
    then have "int (m div 2 ^ nat (- e)) = int (10 ^ 24)" by simp
    then have "m div 2 ^ nat (- e) = 10 ^ 24" by (simp only: of_nat_eq_iff)
    moreover have "m div 2 ^ nat (- e) \<le> m" by simp
    ultimately have "(10::nat) ^ 24 \<le> m" by simp
    with assms show False by simp
  qed
qed

text \<open>
  C5. \<^verbatim>\<open>fromTokenAmount\<close> obtains its divisor as \<^verbatim>\<open>BigInt(10 ** decimals)\<close>, through a Number.
  From 23 decimals on \<open>10\<^sup>d\<^sup>e\<^sup>c\<^sup>i\<^sup>m\<^sup>a\<^sup>l\<^sup>s\<close> is not a binary64 value, the divisor is off, and the
  result differs from the exact quotient and remainder: one whole token of a mint with 24
  decimals, \<open>10\<^sup>2\<^sup>4\<close> base units, is printed as "1.000000000000000016777216" where the exact
  definition gives "1".
\<close>

theorem fromTokenAmount_inexact_divisor:
  "js_BigInt (js_pow10 24) = Inr 999999999999999983222784
   \<and> fromTokenAmount (10 ^ 24) 24 = Inr ''1.000000000000000016777216''
   \<and> toDisplay_spec (10 ^ 24) 24 = ''1''"
proof -
  have d: "js_BigInt (js_pow10 24) = Inr 999999999999999983222784"
    by (simp add: float_eval)
  have f: "fromTokenAmount (10 ^ 24) 24 = Inr ''1.000000000000000016777216''"
    by (simp add: string_eval d)
  have s: "toDisplay_spec (10 ^ 24) 24 = ''1''"
    by (simp add: string_eval)
  from d f s show ?thesis by simp
qed

section \<open>Connection manager\<close>

lemma getConnection_shared:
  "shared st = Some c \<Longrightarrow> getConnection cfg st = (c, st)"
  by (simp add: getConnection_def)

lemma getConnection_first:
  "shared st = None \<Longrightarrow> getConnection cfg st =
     (\<lparr>conn_id = constructed st, endpoint = RPC_URL cfg, commitment = COMMITMENT cfg\<rparr>,
      st\<lparr>constructed := Suc (constructed st),
         shared := Some \<lparr>conn_id = constructed st, endpoint = RPC_URL cfg, commitment = COMMITMENT cfg\<rparr>\<rparr>)"
  by (simp add: getConnection_def new_Connection_def)

lemma getConnection_effect:
  assumes "getConnection cfg st = (c, st1)"
  shows "shared st1 = Some c" "constructed st \<le> constructed st1"
    "shared st = Some d \<Longrightarrow> d = c" "conn_inv cfg st \<Longrightarrow> conn_inv cfg st1"
    "shared st = None \<Longrightarrow> conn_id c = constructed st"
  using assms by (cases "shared st"; simp add: getConnection_shared getConnection_first conn_inv_def; fastforce)+

lemma createConnection_effect:
  assumes "createConnection cfg u k st = (c, st1)"
  shows "shared st1 = shared st" "constructed st1 = Suc (constructed st)" "conn_id c = constructed st"
    "conn_inv cfg st \<Longrightarrow> conn_inv cfg st1"
    "endpoint c = (case u of None \<Rightarrow> RPC_URL cfg | Some x \<Rightarrow> x)"
    "commitment c = (case k of None \<Rightarrow> COMMITMENT cfg | Some x \<Rightarrow> x)"
  using assms by (auto simp: createConnection_def new_Connection_def conn_inv_def split: option.splits)

lemma run_calls_Get:
  "run_calls cfg (GetConnection # cs) st = (rs, st') \<longleftrightarrow>
     (\<exists>c st1 rs1. getConnection cfg st = (c, st1) \<and> run_calls cfg cs st1 = (rs1, st') \<and> rs = (GetConnection, c) # rs1)"
  by (auto split: prod.splits)

lemma run_calls_Create:
  "run_calls cfg (CreateConnection u k # cs) st = (rs, st') \<longleftrightarrow>
     (\<exists>c st1 rs1. createConnection cfg u k st = (c, st1) \<and> run_calls cfg cs st1 = (rs1, st') \<and> rs = (CreateConnection u k, c) # rs1)"
  by (auto split: prod.splits)

lemma run_calls_mono:
  "run_calls cfg cs st = (rs, st') \<Longrightarrow>
     constructed st \<le> constructed st' \<and> (conn_inv cfg st \<longrightarrow> conn_inv cfg st') \<and> (\<forall>c. shared st = Some c \<longrightarrow> shared st' = Some c)"
proof (induction cs arbitrary: st rs st')
  case Nil
  then show ?case by simp
next
  case (Cons a cs)
  show ?case
  proof (cases a)
    case GetConnection
    from Cons.prems obtain c st1 rs1 where g: "getConnection cfg st = (c, st1)"
      and r: "run_calls cfg cs st1 = (rs1, st')" unfolding GetConnection run_calls_Get by blast
    from Cons.IH[OF r] getConnection_effect[OF g] show ?thesis by auto
  next
    case (CreateConnection u k)
    from Cons.prems obtain c st1 rs1 where g: "createConnection cfg u k st = (c, st1)"
      and r: "run_calls cfg cs st1 = (rs1, st')" unfolding CreateConnection run_calls_Create by blast
    from Cons.IH[OF r] createConnection_effect[OF g] show ?thesis by auto
  qed
qed


lemma run_calls_get_shared:
  "run_calls cfg cs st = (rs, st') \<Longrightarrow> (GetConnection, c) \<in> set rs \<Longrightarrow> shared st' = Some c"
proof (induction cs arbitrary: st rs st')
  case Nil
  then show ?case by simp
next
  case (Cons a cs)
  show ?case
  proof (cases a)
    case GetConnection
    from Cons.prems(1) obtain c1 st1 rs1 where g: "getConnection cfg st = (c1, st1)"
      and r: "run_calls cfg cs st1 = (rs1, st')" and rs: "rs = (GetConnection, c1) # rs1"
      unfolding GetConnection run_calls_Get by blast
    from Cons.prems(2) rs have "c = c1 \<or> (GetConnection, c) \<in> set rs1" by auto
    then show ?thesis
    proof
      assume "c = c1"
      with getConnection_effect(1)[OF g] run_calls_mono[OF r] show ?thesis by simp
    next
      assume "(GetConnection, c) \<in> set rs1"
      with Cons.IH[OF r] show ?thesis by simp
    qed
  next
    case (CreateConnection u k)
    from Cons.prems(1) obtain c1 st1 rs1 where g: "createConnection cfg u k st = (c1, st1)"
      and r: "run_calls cfg cs st1 = (rs1, st')" and rs: "rs = (CreateConnection u k, c1) # rs1"
      unfolding CreateConnection run_calls_Create by blast
    from Cons.prems(2) rs have "(GetConnection, c) \<in> set rs1" by auto
    with Cons.IH[OF r] show ?thesis by simp
  qed
qed

lemma run_calls_created_range:
  "run_calls cfg cs st = (rs, st') \<Longrightarrow> (CreateConnection u k, c) \<in> set rs \<Longrightarrow>
     constructed st \<le> conn_id c \<and> conn_id c < constructed st'
     \<and> endpoint c = (case u of None \<Rightarrow> RPC_URL cfg | Some x \<Rightarrow> x)
     \<and> commitment c = (case k of None \<Rightarrow> COMMITMENT cfg | Some x \<Rightarrow> x)"
proof (induction cs arbitrary: st rs st')
  case Nil
  then show ?case by simp
next
  case (Cons a cs)
  show ?case
  proof (cases a)
    case GetConnection
    from Cons.prems(1) obtain c1 st1 rs1 where g: "getConnection cfg st = (c1, st1)"
      and r: "run_calls cfg cs st1 = (rs1, st')" and rs: "rs = (GetConnection, c1) # rs1"
      unfolding GetConnection run_calls_Get by blast
    from Cons.prems(2) rs have "(CreateConnection u k, c) \<in> set rs1" by auto
    from Cons.IH[OF r this] getConnection_effect(2)[OF g] show ?thesis by simp
  next
    case (CreateConnection u' k')
    from Cons.prems(1) obtain c1 st1 rs1 where g: "createConnection cfg u' k' st = (c1, st1)"
      and r: "run_calls cfg cs st1 = (rs1, st')" and rs: "rs = (CreateConnection u' k', c1) # rs1"
      unfolding CreateConnection run_calls_Create by blast
    from Cons.prems(2) rs have "(u = u' \<and> k = k' \<and> c = c1) \<or> (CreateConnection u k, c) \<in> set rs1" by auto
    then show ?thesis
    proof
      assume "u = u' \<and> k = k' \<and> c = c1"
      with createConnection_effect[OF g] run_calls_mono[OF r] show ?thesis by simp
    next
      assume "(CreateConnection u k, c) \<in> set rs1"
      from Cons.IH[OF r this] createConnection_effect(2)[OF g] show ?thesis by simp
    qed
  qed
qed

lemma run_calls_shared_origin:
  "run_calls cfg cs st = (rs, st') \<Longrightarrow> shared st' = Some d \<Longrightarrow>
     shared st = Some d \<or> (shared st = None \<and> (GetConnection, d) \<in> set rs)"
proof (induction cs arbitrary: st rs st')
  case Nil
  then show ?case by simp
next
  case (Cons a cs)
  show ?case
  proof (cases a)
    case GetConnection
    from Cons.prems(1) obtain c1 st1 rs1 where g: "getConnection cfg st = (c1, st1)"
      and r: "run_calls cfg cs st1 = (rs1, st')" and rs: "rs = (GetConnection, c1) # rs1"
      unfolding GetConnection run_calls_Get by blast
    from getConnection_effect(1)[OF g] run_calls_mono[OF r] Cons.prems(2) have "d = c1" by simp
    with rs getConnection_effect(3)[OF g] show ?thesis by (cases "shared st") auto
  next
    case (CreateConnection u' k')
    from Cons.prems(1) obtain c1 st1 rs1 where g: "createConnection cfg u' k' st = (c1, st1)"
      and r: "run_calls cfg cs st1 = (rs1, st')" and rs: "rs = (CreateConnection u' k', c1) # rs1"
      unfolding CreateConnection run_calls_Create by blast
    from Cons.IH[OF r Cons.prems(2)] createConnection_effect(1)[OF g] rs show ?thesis by auto
  qed
qed


lemma run_calls_first_get_id:
  "run_calls cfg cs st = (rs, st') \<Longrightarrow> shared st = None \<Longrightarrow> (GetConnection, d) \<in> set rs \<Longrightarrow>
     constructed st \<le> conn_id d"
proof (induction cs arbitrary: st rs st')
  case Nil
  then show ?case by simp
next
  case (Cons a cs)
  show ?case
  proof (cases a)
    case GetConnection
    from Cons.prems(1) obtain c1 st1 rs1 where g: "getConnection cfg st = (c1, st1)"
      and r: "run_calls cfg cs st1 = (rs1, st')" and rs: "rs = (GetConnection, c1) # rs1"
      unfolding GetConnection run_calls_Get by blast
    have "(GetConnection, c1) \<in> set rs" using rs by simp
    from run_calls_get_shared[OF Cons.prems(1) this] run_calls_get_shared[OF Cons.prems(1) Cons.prems(3)]
    have "d = c1" by simp
    with getConnection_effect(5)[OF g Cons.prems(2)] show ?thesis by simp
  next
    case (CreateConnection u' k')
    from Cons.prems(1) obtain c1 st1 rs1 where g: "createConnection cfg u' k' st = (c1, st1)"
      and r: "run_calls cfg cs st1 = (rs1, st')" and rs: "rs = (CreateConnection u' k', c1) # rs1"
      unfolding CreateConnection run_calls_Create by blast
    from Cons.prems(3) rs have "(GetConnection, d) \<in> set rs1" by auto
    from Cons.IH[OF r _ this] createConnection_effect(1,2)[OF g] Cons.prems(2) show ?thesis by simp
  qed
qed

lemma run_calls_created_not_shared:
  "run_calls cfg cs st = (rs, st') \<Longrightarrow> conn_inv cfg st \<Longrightarrow> (CreateConnection u k, c) \<in> set rs \<Longrightarrow>
     shared st' = Some d \<Longrightarrow> conn_id d \<noteq> conn_id c"
proof (induction cs arbitrary: st rs st')
  case Nil
  then show ?case by simp
next
  case (Cons a cs)
  show ?case
  proof (cases a)
    case GetConnection
    from Cons.prems(1) obtain c1 st1 rs1 where g: "getConnection cfg st = (c1, st1)"
      and r: "run_calls cfg cs st1 = (rs1, st')" and rs: "rs = (GetConnection, c1) # rs1"
      unfolding GetConnection run_calls_Get by blast
    from Cons.prems(3) rs have "(CreateConnection u k, c) \<in> set rs1" by auto
    from Cons.IH[OF r getConnection_effect(4)[OF g Cons.prems(2)] this Cons.prems(4)] show ?thesis .
  next
    case (CreateConnection u' k')
    from Cons.prems(1) obtain c1 st1 rs1 where g: "createConnection cfg u' k' st = (c1, st1)"
      and r: "run_calls cfg cs st1 = (rs1, st')" and rs: "rs = (CreateConnection u' k', c1) # rs1"
      unfolding CreateConnection run_calls_Create by blast
    note ce = createConnection_effect[OF g]
    from Cons.prems(3) rs have "c = c1 \<or> (CreateConnection u k, c) \<in> set rs1" by auto
    then show ?thesis
    proof
      assume c: "c = c1"
      from run_calls_shared_origin[OF r Cons.prems(4)] show ?thesis
      proof
        assume "shared st1 = Some d"
        with ce(1) Cons.prems(2) have "conn_id d < constructed st"
          by (cases "shared st") (simp_all add: conn_inv_def)
        with ce(3) c show ?thesis by simp
      next
        assume "shared st1 = None \<and> (GetConnection, d) \<in> set rs1"
        with run_calls_first_get_id[OF r] have "constructed st1 \<le> conn_id d" by simp
        with ce(2,3) c show ?thesis by simp
      qed
    next
      assume "(CreateConnection u k, c) \<in> set rs1"
      from Cons.IH[OF r ce(4)[OF Cons.prems(2)] this Cons.prems(4)] show ?thesis .
    qed
  qed
qed

lemma run_calls_created_distinct:
  "run_calls cfg cs st = (rs, st') \<Longrightarrow>
     distinct (map (\<lambda>x. conn_id (snd x)) (filter (\<lambda>x. fst x \<noteq> GetConnection) rs))"
proof (induction cs arbitrary: st rs st')
  case Nil
  then show ?case by simp
next
  case (Cons a cs)
  show ?case
  proof (cases a)
    case GetConnection
    from Cons.prems(1) obtain c1 st1 rs1 where g: "getConnection cfg st = (c1, st1)"
      and r: "run_calls cfg cs st1 = (rs1, st')" and rs: "rs = (GetConnection, c1) # rs1"
      unfolding GetConnection run_calls_Get by blast
    from Cons.IH[OF r] rs show ?thesis by simp
  next
    case (CreateConnection u' k')
    from Cons.prems(1) obtain c1 st1 rs1 where g: "createConnection cfg u' k' st = (c1, st1)"
      and r: "run_calls cfg cs st1 = (rs1, st')" and rs: "rs = (CreateConnection u' k', c1) # rs1"
      unfolding CreateConnection run_calls_Create by blast
    note ce = createConnection_effect[OF g]
    have "conn_id c1 \<noteq> conn_id (snd x)" if x: "x \<in> set rs1" "fst x \<noteq> GetConnection" for x
    proof -
      obtain u k c where xe: "x = (CreateConnection u k, c)"
        using x(2) by (cases x; cases "fst x") auto
      with run_calls_created_range[OF r, of u k c] x(1) have "constructed st1 \<le> conn_id c" by simp
      with ce(2,3) xe show ?thesis by simp
    qed
    with Cons.IH[OF r] rs show ?thesis by (auto simp: image_iff)
  qed
qed

text \<open>
  C9. In a process that calls \<^verbatim>\<open>getConnection\<close> and \<^verbatim>\<open>createConnection\<close> in any order, starting
  with no shared connection: every call of \<^verbatim>\<open>getConnection\<close> returns the one shared object,
  constructed (by the first such call) from the configured endpoint and commitment and still
  in place at the end; every call of \<^verbatim>\<open>createConnection\<close> returns an object of its own, with
  the endpoint and commitment asked for, different from the shared one and from every other
  created one; and \<^verbatim>\<open>createConnection\<close> leaves the shared variable as it is.
\<close>

theorem connection_manager:
  assumes "run_calls cfg calls initial_module_state = (rs, st)"
  shows "(\<forall>c. (GetConnection, c) \<in> set rs \<longrightarrow>
            shared st = Some c \<and> endpoint c = RPC_URL cfg \<and> commitment c = COMMITMENT cfg)
       \<and> (\<forall>u k c. (CreateConnection u k, c) \<in> set rs \<longrightarrow>
            endpoint c = (case u of None \<Rightarrow> RPC_URL cfg | Some x \<Rightarrow> x)
          \<and> commitment c = (case k of None \<Rightarrow> COMMITMENT cfg | Some x \<Rightarrow> x)
          \<and> (\<forall>d. shared st = Some d \<longrightarrow> conn_id d \<noteq> conn_id c))
       \<and> distinct (map (\<lambda>x. conn_id (snd x)) (filter (\<lambda>x. fst x \<noteq> GetConnection) rs))
       \<and> (\<forall>u k s. shared (snd (createConnection cfg u k s)) = shared s)"
proof -
  have inv0: "conn_inv cfg initial_module_state"
    by (simp add: conn_inv_def initial_module_state_def)
  have g: "shared st = Some c \<and> endpoint c = RPC_URL cfg \<and> commitment c = COMMITMENT cfg"
    if "(GetConnection, c) \<in> set rs" for c
  proof -
    from run_calls_get_shared[OF assms that] have s: "shared st = Some c" .
    from run_calls_mono[OF assms] inv0 have "conn_inv cfg st" by simp
    with s show ?thesis by (simp add: conn_inv_def)
  qed
  have c: "endpoint c = (case u of None \<Rightarrow> RPC_URL cfg | Some x \<Rightarrow> x)
          \<and> commitment c = (case k of None \<Rightarrow> COMMITMENT cfg | Some x \<Rightarrow> x)
          \<and> (\<forall>d. shared st = Some d \<longrightarrow> conn_id d \<noteq> conn_id c)"
    if "(CreateConnection u k, c) \<in> set rs" for u k c
    using run_calls_created_range[OF assms that] run_calls_created_not_shared[OF assms inv0 that]
    by simp
  have t: "shared (snd (createConnection cfg u k s)) = shared s" for u k s
    by (simp add: createConnection_def new_Connection_def)
  from g c t run_calls_created_distinct[OF assms] show ?thesis by blast
qed


theorem connection_manager_witness:
  "run_calls (sample_config ''devnet'')
       [GetConnection, CreateConnection None (Some ''finalized''), GetConnection] initial_module_state
     = ([(GetConnection,
          \<lparr>conn_id = 0, endpoint = ''https://api.devnet.solana.com'', commitment = ''confirmed''\<rparr>),
         (CreateConnection None (Some ''finalized''),
          \<lparr>conn_id = 1, endpoint = ''https://api.devnet.solana.com'', commitment = ''finalized''\<rparr>),
         (GetConnection,
          \<lparr>conn_id = 0, endpoint = ''https://api.devnet.solana.com'', commitment = ''confirmed''\<rparr>)],
        \<lparr>shared = Some \<lparr>conn_id = 0, endpoint = ''https://api.devnet.solana.com'',
                          commitment = ''confirmed''\<rparr>,
           constructed = 2\<rparr>)
   \<and> RPC_URL (sample_config ''devnet'') = ''https://api.devnet.solana.com''
   \<and> COMMITMENT (sample_config ''devnet'') = ''confirmed''"
proof -
  let ?c0 = "\<lparr>conn_id = 0, endpoint = ''https://api.devnet.solana.com'', commitment = ''confirmed''\<rparr>"
  let ?c1 = "\<lparr>conn_id = 1, endpoint = ''https://api.devnet.solana.com'', commitment = ''finalized''\<rparr>"
  have r: "run_calls (sample_config ''devnet'')
       [GetConnection, CreateConnection None (Some ''finalized''), GetConnection] initial_module_state
     = ([(GetConnection, ?c0), (CreateConnection None (Some ''finalized''), ?c1), (GetConnection, ?c0)],
        \<lparr>shared = Some ?c0, constructed = 2\<rparr>)"
    by (simp add: getConnection_def createConnection_def new_Connection_def initial_module_state_def
          sample_config_def)
  from connection_manager[OF r] r show ?thesis by (simp add: sample_config_def)
qed

section \<open>Traces of the scripts\<close>

lemma events_then_run:
  "fst (then_run m f) = fst m @ (case snd m of Value a \<Rightarrow> fst (f a) | _ \<Rightarrow> [])"
  by (cases m; cases "snd m") (auto simp: then_run_def split: prod.splits)

lemma result_then_run:
  "snd (then_run m f) = (case snd m of Value a \<Rightarrow> snd (f a) | Throw err \<Rightarrow> Throw err | Exit n \<Rightarrow> Exit n)"
  by (cases m; cases "snd m") (auto simp: then_run_def split: prod.splits)

lemma events_basic:
  "fst (lift r) = []" "fst (ask req r) = [Network req]" "fst (console_log ps) = [ConsoleLog ps]"
  "fst (console_error ps) = [ConsoleError ps]" "fst (pure_run a) = []" "fst (throw err) = []"
  "fst (process_exit n) = []"
  "fst (connect cfg) = [NewConnection \<lparr>conn_id = 0, endpoint = RPC_URL cfg, commitment = COMMITMENT cfg\<rparr>]"
  by (simp_all add: lift_def throw_def pure_run_def ask_def console_log_def console_error_def
      process_exit_def connect_def getConnection_def new_Connection_def initial_module_state_def
      split: sum.split)

lemma result_ask: "snd (ask req r) = (case r of Inl err \<Rightarrow> Throw err | Inr a \<Rightarrow> Value a)"
  by (simp add: ask_def)

lemma every_event_then:
  "every_event P m \<Longrightarrow> (\<And>a. every_event P (f a)) \<Longrightarrow> every_event P (then_run m f)"
  by (auto simp: every_event_def events_then_run split: completion.splits)

lemma every_event_if:
  "every_event P m \<Longrightarrow> every_event P m' \<Longrightarrow> every_event P (if c then m else m')"
  by simp

lemma send_count_then_0:
  "send_count m = 0 \<Longrightarrow> (\<And>a. send_count (f a) \<le> n) \<Longrightarrow> send_count (then_run m f) \<le> n"
  by (cases "snd m") (simp_all add: send_count_def events_then_run)

lemma send_count_if:
  "send_count m \<le> n \<Longrightarrow> send_count m' \<le> n \<Longrightarrow> send_count (if c then m else m') \<le> n"
  by simp

lemma send_count_basic:
  "send_count (lift r) = 0" "send_count (console_log ps) = 0" "send_count (console_error ps) = 0"
  "send_count (pure_run a) = 0" "send_count (throw err) = 0" "send_count (process_exit n) = 0"
  "send_count (connect cfg) = 0"
  "send_count (ask (SendRawTransaction raw sp mr) r) = 1"
  "send_count (ask (GetMint k) r1) = 0" "send_count (ask (QuoteRequest i out am sl) r2) = 0"
  "send_count (ask (SwapRequest q pk w) r3) = 0" "send_count (ask (ConfirmTransaction sg an cm) r4) = 0"
  by (simp_all add: send_count_def events_basic is_send_def)

lemma send_count_if_0:
  "send_count (if c then pure_run a else throw err) = 0"
  by (simp add: send_count_basic)

lemma stops_at_then:
  "stops_at ev err m \<Longrightarrow> (\<And>a. stops_at ev err (f a)) \<Longrightarrow> stops_at ev err (then_run m f)"
  by (cases "snd m") (auto simp: stops_at_def events_then_run result_then_run last_append)

lemma stops_at_if:
  "stops_at ev err m \<Longrightarrow> stops_at ev err m' \<Longrightarrow> stops_at ev err (if c then m else m')"
  by simp

lemma stops_at_absent: "ev \<notin> set (fst m) \<Longrightarrow> stops_at ev err m"
  by (simp add: stops_at_def)

lemma stops_at_ask:
  "(req = req' \<Longrightarrow> r = Inl err) \<Longrightarrow> stops_at (Network req') err (ask req r)"
  by (auto simp: stops_at_def events_basic result_ask)


lemma send_count_then_1:
  "send_count m \<le> 1 \<Longrightarrow> (\<And>a. send_count (f a) = 0) \<Longrightarrow> send_count (then_run m f) \<le> 1"
  by (cases "snd m") (simp_all add: send_count_def events_then_run)

lemma send_count_then_eq0:
  "send_count m = 0 \<Longrightarrow> (\<And>a. send_count (f a) = 0) \<Longrightarrow> send_count (then_run m f) = 0"
  by (cases "snd m") (simp_all add: send_count_def events_then_run)

lemma swap_send_count: "send_count (swap_main L cfg env W argv) \<le> 1"
  unfolding swap_main_def Let_def
  apply (rule send_count_if)
   apply (rule send_count_then_0; simp add: send_count_basic)
  apply (rule send_count_then_0, (simp add: send_count_basic; fail))+
  apply (rule send_count_then_1, simp add: send_count_basic)
  apply (intro send_count_then_eq0; simp add: send_count_basic)
  done

lemma swap_no_anchor_fetch:
  "every_event (\<lambda>ev. ev \<noteq> Network GetLatestBlockhash) (swap_main L cfg env W argv)"
  unfolding swap_main_def Let_def
  by (intro every_event_if every_event_then; simp add: every_event_def events_basic)

lemma swap_send_options:
  "every_event (\<lambda>ev. is_send ev \<longrightarrow> (\<exists>raw. ev = Network (SendRawTransaction raw False 3)))
     (swap_main L cfg env W argv)"
  unfolding swap_main_def Let_def
  by (intro every_event_if every_event_then; simp add: every_event_def events_basic is_send_def)

lemma swap_send_failure:
  assumes "sendRawTransaction W raw = Inl err"
  shows "stops_at (Network (SendRawTransaction raw sp mr)) err (swap_main L cfg env W argv)"
  unfolding swap_main_def Let_def
  by (intro stops_at_if stops_at_then stops_at_ask; simp add: stops_at_def events_basic assms)

lemma swap_confirm_failure:
  assumes "confirmTransaction W sig = Inl err"
  shows "stops_at (Network (ConfirmTransaction sig a c)) err (swap_main L cfg env W argv)"
  unfolding swap_main_def Let_def
  by (intro stops_at_if stops_at_then stops_at_ask; simp add: stops_at_def events_basic assms)

lemma then_run_simps:
  "then_run (es, Value a) f = (es @ fst (f a), snd (f a))"
  "then_run (es, Throw err) f = (es, Throw err)"
  "then_run (es, Exit n) f = (es, Exit n)"
  by (simp_all add: then_run_def split: prod.splits)

lemmas run_steps = then_run_simps lift_def ask_def pure_run_def throw_def console_log_def
  console_error_def process_exit_def connect_def getConnection_def new_Connection_def
  initial_module_state_def

lemma create_token_events:
  "fst (create_token_main L cfg env W argv) =
     NewConnection \<lparr>conn_id = 0, endpoint = RPC_URL cfg, commitment = COMMITMENT cfg\<rparr> #
     (case resolveKeypair L cfg env of
        Inl err \<Rightarrow> []
      | Inr payer \<Rightarrow>
          [ConsoleLog [Lit ''Creating token mint with '',
                       Num (parseInt10 (if argv_at argv 2 \<noteq> [] then argv_at argv 2 else ''9'')),
                       Lit '' decimals...''],
           ConsoleLog [Lit ''Payer / Mint Authority: '', Key (publicKey payer)],
           Network (CreateMint (publicKey payer) (publicKey payer) (publicKey payer)
                      (parseInt10 (if argv_at argv 2 \<noteq> [] then argv_at argv 2 else ''9''))
                      (publicKey (generate L)))] @
          (case createMint W (publicKey payer) (publicKey payer) (publicKey payer)
                  (parseInt10 (if argv_at argv 2 \<noteq> [] then argv_at argv 2 else ''9''))
                  (publicKey (generate L)) of
             Inl err \<Rightarrow> []
           | Inr mint \<Rightarrow>
               [ConsoleLog [Lit check_mark, Lit '' Token mint created: '', Key mint],
                ConsoleLog [Lit ''  Decimals:        '',
                            Num (parseInt10 (if argv_at argv 2 \<noteq> [] then argv_at argv 2 else ''9''))],
                ConsoleLog [Lit ''  Mint authority:  '', Key (publicKey payer)],
                ConsoleLog [Lit ''  Freeze authority: '', Key (publicKey payer)]]))"
  unfolding create_token_main_def Let_def
  by (simp add: run_steps split: sum.split)

lemma network_in_script:
  "Network r \<in> set (events (run_main label m)) \<longleftrightarrow> Network r \<in> set (fst m)"
  by (cases m; cases "snd m") (simp_all add: run_main_def)

lemma sends_in_script:
  "filter is_send (events (run_main label m)) = filter is_send (fst m)"
  by (cases m; cases "snd m") (simp_all add: run_main_def is_send_def)

lemma script_after_throw:
  assumes "snd m = Throw err"
  shows "exit_code (run_main label m) = 1"
    and "events (run_main label m) = fst m @ [ConsoleError [Lit label, Msg err]]"
  using assms by (cases m; simp add: run_main_def)+

lemma script_stops:
  assumes "stops_at (Network r) err m" and "Network r \<in> set (events (run_main label m))"
  shows "exit_code (run_main label m) = 1
       \<and> (\<exists>pre. events (run_main label m) = pre @ [Network r, ConsoleError [Lit label, Msg err]])"
proof -
  from assms have i: "Network r \<in> set (fst m)" by (simp add: network_in_script)
  with assms(1) have t: "snd m = Throw err" and l: "last (fst m) = Network r"
    by (simp_all add: stops_at_def)
  from i have "fst m \<noteq> []" by auto
  then have "fst m = butlast (fst m) @ [last (fst m)]" by simp
  with l have "fst m = butlast (fst m) @ [Network r]" by simp
  then have "events (run_main label m) = butlast (fst m) @ [Network r, ConsoleError [Lit label, Msg err]]"
    using script_after_throw(2)[OF t, of label] by simp
  with script_after_throw(1)[OF t] show ?thesis by blast
qed

lemma sample_amount: "toTokenAmount (parseFloat ''1.5'') 9 = Inr 1500000000"
proof -
  have "parseFloat ''1.5'' = Fin False 6755399441055744 (- 52)"
    by (simp add: parse_eval) (simp add: float_eval)
  then show ?thesis by (simp add: float_eval)
qed

lemmas sample_eval = run_main_def run_steps argv_at_def resolveKeypair_def
  loadKeypairFromBase58_def sample_library_def sample_env_def sample_config_def sample_network_def
  sample_amount

lemma sample_swap_trace:
  "swap_script sample_library (sample_config ''devnet'') sample_env sample_network
        [''node'', ''swap-jupiter.ts'', ''So11'', ''EPjF'', ''1.5'']
   = \<lparr>events =
       [NewConnection \<lparr>conn_id = 0, endpoint = ''https://api.devnet.solana.com'', commitment = ''confirmed''\<rparr>,
        Network (GetMint [83, 111, 49, 49]),
        ConsoleLog [Lit ''Swapping '', Num (parseFloat ''1.5''), Lit '' of '', Key [83, 111, 49, 49],
                    Lit '' '', Lit arrow, Lit '' '', Key [69, 80, 106, 70]],
        ConsoleLog [Lit ''Slippage: '', Num (parseInt10 ''50''), Lit '' bps''],
        Network (QuoteRequest [83, 111, 49, 49] [69, 80, 106, 70] 1500000000 (parseInt10 ''50'')),
        ConsoleLog [Lit ''Quote received '', Lit em_dash, Lit '' estimated out: '', Prop ''quote'' ''outAmount''],
        Network (SwapRequest ''quote'' [1, 2] True),
        Network (SendRawTransaction [1, 2, 65, 81, 73, 68] False 3),
        Network (ConfirmTransaction ''sig2'' None ''confirmed''),
        ConsoleLog [Lit check_mark, Lit '' Swap confirmed: '', Lit ''sig2'']],
      exit_code = 0\<rparr>"
  unfolding swap_script_def swap_main_def Let_def
  by (simp add: sample_eval)


lemma sample_swap_send_fails:
  "swap_script sample_library (sample_config ''devnet'') sample_env
        (sample_network\<lparr>sendRawTransaction := (\<lambda>raw. Inl (Thrown ''insufficient funds''))\<rparr>)
        [''node'', ''swap-jupiter.ts'', ''So11'', ''EPjF'', ''1.5'']
   = \<lparr>events =
       [NewConnection \<lparr>conn_id = 0, endpoint = ''https://api.devnet.solana.com'', commitment = ''confirmed''\<rparr>,
        Network (GetMint [83, 111, 49, 49]),
        ConsoleLog [Lit ''Swapping '', Num (parseFloat ''1.5''), Lit '' of '', Key [83, 111, 49, 49],
                    Lit '' '', Lit arrow, Lit '' '', Key [69, 80, 106, 70]],
        ConsoleLog [Lit ''Slippage: '', Num (parseInt10 ''50''), Lit '' bps''],
        Network (QuoteRequest [83, 111, 49, 49] [69, 80, 106, 70] 1500000000 (parseInt10 ''50'')),
        ConsoleLog [Lit ''Quote received '', Lit em_dash, Lit '' estimated out: '', Prop ''quote'' ''outAmount''],
        Network (SwapRequest ''quote'' [1, 2] True),
        Network (SendRawTransaction [1, 2, 65, 81, 73, 68] False 3),
        ConsoleError [Lit ''Swap failed:'', Msg (Thrown ''insufficient funds'')]],
      exit_code = 1\<rparr>"
  unfolding swap_script_def swap_main_def Let_def
  by (simp add: sample_eval)

lemma sample_swap_confirm_fails:
  "swap_script sample_library (sample_config ''devnet'') sample_env
        (sample_network\<lparr>confirmTransaction := (\<lambda>sig. Inl (Thrown ''block height exceeded''))\<rparr>)
        [''node'', ''swap-jupiter.ts'', ''So11'', ''EPjF'', ''1.5'']
   = \<lparr>events =
       [NewConnection \<lparr>conn_id = 0, endpoint = ''https://api.devnet.solana.com'', commitment = ''confirmed''\<rparr>,
        Network (GetMint [83, 111, 49, 49]),
        ConsoleLog [Lit ''Swapping '', Num (parseFloat ''1.5''), Lit '' of '', Key [83, 111, 49, 49],
                    Lit '' '', Lit arrow, Lit '' '', Key [69, 80, 106, 70]],
        ConsoleLog [Lit ''Slippage: '', Num (parseInt10 ''50''), Lit '' bps''],
        Network (QuoteRequest [83, 111, 49, 49] [69, 80, 106, 70] 1500000000 (parseInt10 ''50'')),
        ConsoleLog [Lit ''Quote received '', Lit em_dash, Lit '' estimated out: '', Prop ''quote'' ''outAmount''],
        Network (SwapRequest ''quote'' [1, 2] True),
        Network (SendRawTransaction [1, 2, 65, 81, 73, 68] False 3),
        Network (ConfirmTransaction ''sig2'' None ''confirmed''),
        ConsoleError [Lit ''Swap failed:'', Msg (Thrown ''block height exceeded'')]],
      exit_code = 1\<rparr>"
  unfolding swap_script_def swap_main_def Let_def
  by (simp add: sample_eval)

text \<open>
  C2 (amended). The swap script hands the signed bytes to the network at most once in a run.
  When the confirmation fails (the anchor of the transaction expired before it was confirmed,
  or any other error), the script reports the error and exits with status 1: after the failed
  confirmation there is no further request, so the same bytes are never sent again.  The script
  never fetches a freshness anchor: the transaction is sent with the anchor the aggregator
  built into it.
\<close>

theorem swap_single_submission:
  "length (filter is_send (events (swap_script L cfg env W argv))) \<le> 1
   \<and> Network GetLatestBlockhash \<notin> set (events (swap_script L cfg env W argv))
   \<and> (\<forall>sig a c err.
         Network (ConfirmTransaction sig a c) \<in> set (events (swap_script L cfg env W argv))
           \<and> confirmTransaction W sig = Inl err \<longrightarrow>
         exit_code (swap_script L cfg env W argv) = 1
           \<and> (\<exists>pre. events (swap_script L cfg env W argv)
                      = pre @ [Network (ConfirmTransaction sig a c),
                               ConsoleError [Lit ''Swap failed:'', Msg err]]))"
proof (intro conjI allI impI)
  show "length (filter is_send (events (swap_script L cfg env W argv))) \<le> 1"
    using swap_send_count[of L cfg env W argv]
    by (simp add: swap_script_def sends_in_script send_count_def)
  show "Network GetLatestBlockhash \<notin> set (events (swap_script L cfg env W argv))"
    using swap_no_anchor_fetch[of L cfg env W argv]
    by (auto simp: swap_script_def network_in_script every_event_def)
next
  fix sig a c err
  assume h: "Network (ConfirmTransaction sig a c) \<in> set (events (swap_script L cfg env W argv))
      \<and> confirmTransaction W sig = Inl err"
  then have "stops_at (Network (ConfirmTransaction sig a c)) err (swap_main L cfg env W argv)"
    by (intro swap_confirm_failure) simp
  from script_stops[OF this, of "''Swap failed:''"] h
  have r: "exit_code (swap_script L cfg env W argv) = 1
       \<and> (\<exists>pre. events (swap_script L cfg env W argv)
                  = pre @ [Network (ConfirmTransaction sig a c), ConsoleError [Lit ''Swap failed:'', Msg err]])"
    by (simp add: swap_script_def)
  from r show "exit_code (swap_script L cfg env W argv) = 1" ..
  from r show "\<exists>pre. events (swap_script L cfg env W argv)
                  = pre @ [Network (ConfirmTransaction sig a c), ConsoleError [Lit ''Swap failed:'', Msg err]]" ..
qed

theorem swap_single_submission_witness:
  "Network (ConfirmTransaction ''sig2'' None ''confirmed'')
     \<in> set (events (swap_script sample_library (sample_config ''devnet'') sample_env
          (sample_network\<lparr>confirmTransaction := (\<lambda>sig. Inl (Thrown ''block height exceeded''))\<rparr>)
          [''node'', ''swap-jupiter.ts'', ''So11'', ''EPjF'', ''1.5'']))
   \<and> confirmTransaction
         (sample_network\<lparr>confirmTransaction := (\<lambda>sig. Inl (Thrown ''block height exceeded''))\<rparr>) ''sig2''
       = Inl (Thrown ''block height exceeded'')
   \<and> exit_code (swap_script sample_library (sample_config ''devnet'') sample_env
          (sample_network\<lparr>confirmTransaction := (\<lambda>sig. Inl (Thrown ''block height exceeded''))\<rparr>)
          [''node'', ''swap-jupiter.ts'', ''So11'', ''EPjF'', ''1.5'']) = 1
   \<and> length (filter is_send (events (swap_script sample_library (sample_config ''devnet'') sample_env
          (sample_network\<lparr>confirmTransaction := (\<lambda>sig. Inl (Thrown ''block height exceeded''))\<rparr>)
          [''node'', ''swap-jupiter.ts'', ''So11'', ''EPjF'', ''1.5'']))) = 1"
  using swap_single_submission
          [of sample_library "sample_config ''devnet''" sample_env
              "sample_network\<lparr>confirmTransaction := (\<lambda>sig. Inl (Thrown ''block height exceeded''))\<rparr>"
              "[''node'', ''swap-jupiter.ts'', ''So11'', ''EPjF'', ''1.5'']"]
  unfolding sample_swap_confirm_fails
  by (simp add: is_send_def)

text \<open>
  C2 as stated fails: in a run of the swap script the one submission is not preceded by any
  fetch of a freshness anchor.
\<close>

theorem swap_sends_without_fresh_anchor_counterexample:
  "\<not> anchor_before_each_send False
        (events (swap_script sample_library (sample_config ''devnet'') sample_env sample_network
           [''node'', ''swap-jupiter.ts'', ''So11'', ''EPjF'', ''1.5'']))"
  unfolding sample_swap_trace by simp

text \<open>
  C3 (amended). The swap script has no retrying wrapper around its submission.  It submits at
  most once per run, with the options \<^verbatim>\<open>{ skipPreflight: false, maxRetries: 3 }\<close>: the 3 is a
  budget handed to the RPC node, the script itself never submits again.  It classifies no
  failure: when the submission fails with any error, transient or deterministic, the script
  reports that error and exits with status 1, and the failed submission is the last request of
  the run.
\<close>

theorem swap_submission_attempts:
  "length (filter is_send (events (swap_script L cfg env W argv))) \<le> 1
   \<and> (\<forall>ev \<in> set (events (swap_script L cfg env W argv)).
         is_send ev \<longrightarrow> (\<exists>raw. ev = Network (SendRawTransaction raw False 3)))
   \<and> (\<forall>raw sp mr err.
         Network (SendRawTransaction raw sp mr) \<in> set (events (swap_script L cfg env W argv))
           \<and> sendRawTransaction W raw = Inl err \<longrightarrow>
         exit_code (swap_script L cfg env W argv) = 1
           \<and> (\<exists>pre. events (swap_script L cfg env W argv)
                      = pre @ [Network (SendRawTransaction raw sp mr),
                               ConsoleError [Lit ''Swap failed:'', Msg err]]))"
proof (intro conjI allI impI ballI)
  show "length (filter is_send (events (swap_script L cfg env W argv))) \<le> 1"
    using swap_send_count[of L cfg env W argv]
    by (simp add: swap_script_def sends_in_script send_count_def)
next
  fix ev
  assume e: "ev \<in> set (events (swap_script L cfg env W argv))" and s: "is_send ev"
  from s obtain r where r: "ev = Network r" by (cases ev) (simp_all add: is_send_def)
  with e have "ev \<in> set (fst (swap_main L cfg env W argv))"
    by (simp add: swap_script_def network_in_script)
  with swap_send_options[of L cfg env W argv] s
  show "\<exists>raw. ev = Network (SendRawTransaction raw False 3)"
    by (simp add: every_event_def)
next
  fix raw sp mr err
  assume h: "Network (SendRawTransaction raw sp mr) \<in> set (events (swap_script L cfg env W argv))
      \<and> sendRawTransaction W raw = Inl err"
  then have "stops_at (Network (SendRawTransaction raw sp mr)) err (swap_main L cfg env W argv)"
    by (intro swap_send_failure) simp
  from script_stops[OF this, of "''Swap failed:''"] h
  have r: "exit_code (swap_script L cfg env W argv) = 1
       \<and> (\<exists>pre. events (swap_script L cfg env W argv)
                  = pre @ [Network (SendRawTransaction raw sp mr), ConsoleError [Lit ''Swap failed:'', Msg err]])"
    by (simp add: swap_script_def)
  from r show "exit_code (swap_script L cfg env W argv) = 1" ..
  from r show "\<exists>pre. events (swap_script L cfg env W argv)
                  = pre @ [Network (SendRawTransaction raw sp mr), ConsoleError [Lit ''Swap failed:'', Msg err]]" ..
qed

theorem swap_submission_attempts_witness:
  "Network (SendRawTransaction [1, 2, 65, 81, 73, 68] False 3)
     \<in> set (events (swap_script sample_library (sample_config ''devnet'') sample_env
          (sample_network\<lparr>sendRawTransaction := (\<lambda>raw. Inl (Thrown ''insufficient funds''))\<rparr>)
          [''node'', ''swap-jupiter.ts'', ''So11'', ''EPjF'', ''1.5'']))
   \<and> is_send (Network (SendRawTransaction [1, 2, 65, 81, 73, 68] False 3))
   \<and> sendRawTransaction
         (sample_network\<lparr>sendRawTransaction := (\<lambda>raw. Inl (Thrown ''insufficient funds''))\<rparr>)
         [1, 2, 65, 81, 73, 68]
       = Inl (Thrown ''insufficient funds'')
   \<and> exit_code (swap_script sample_library (sample_config ''devnet'') sample_env
          (sample_network\<lparr>sendRawTransaction := (\<lambda>raw. Inl (Thrown ''insufficient funds''))\<rparr>)
          [''node'', ''swap-jupiter.ts'', ''So11'', ''EPjF'', ''1.5'']) = 1
   \<and> length (filter is_send (events (swap_script sample_library (sample_config ''devnet'') sample_env
          (sample_network\<lparr>sendRawTransaction := (\<lambda>raw. Inl (Thrown ''insufficient funds''))\<rparr>)
          [''node'', ''swap-jupiter.ts'', ''So11'', ''EPjF'', ''1.5'']))) = 1"
  using swap_submission_attempts
          [of sample_library "sample_config ''devnet''" sample_env
              "sample_network\<lparr>sendRawTransaction := (\<lambda>raw. Inl (Thrown ''insufficient funds''))\<rparr>"
              "[''node'', ''swap-jupiter.ts'', ''So11'', ''EPjF'', ''1.5'']"]
  unfolding sample_swap_send_fails
  by (simp add: is_send_def)

text \<open>
  C3 as stated fails: a submission refused for rate limiting, a transient failure, is not tried
  again.  The run has its one submission and ends with the error and status 1.
\<close>

theorem swap_transient_failure_not_retried_counterexample:
  "swap_script sample_library (sample_config ''devnet'') sample_env
        (sample_network\<lparr>sendRawTransaction := (\<lambda>raw. Inl (Thrown ''429 Too Many Requests''))\<rparr>)
        [''node'', ''swap-jupiter.ts'', ''So11'', ''EPjF'', ''1.5'']
   = \<lparr>events =
       [NewConnection \<lparr>conn_id = 0, endpoint = ''https://api.devnet.solana.com'', commitment = ''confirmed''\<rparr>,
        Network (GetMint [83, 111, 49, 49]),
        ConsoleLog [Lit ''Swapping '', Num (parseFloat ''1.5''), Lit '' of '', Key [83, 111, 49, 49],
                    Lit '' '', Lit arrow, Lit '' '', Key [69, 80, 106, 70]],
        ConsoleLog [Lit ''Slippage: '', Num (parseInt10 ''50''), Lit '' bps''],
        Network (QuoteRequest [83, 111, 49, 49] [69, 80, 106, 70] 1500000000 (parseInt10 ''50'')),
        ConsoleLog [Lit ''Quote received '', Lit em_dash, Lit '' estimated out: '', Prop ''quote'' ''outAmount''],
        Network (SwapRequest ''quote'' [1, 2] True),
        Network (SendRawTransaction [1, 2, 65, 81, 73, 68] False 3),
        ConsoleError [Lit ''Swap failed:'', Msg (Thrown ''429 Too Many Requests'')]],
      exit_code = 1\<rparr>"
  unfolding swap_script_def swap_main_def Let_def
  by (simp add: sample_eval)

lemma default_decimals: "js_BigInt (parseInt10 ''9'') = Inr 9"
  by (simp add: parse_eval) (simp add: float_eval)

lemma sample_create_token_trace:
  "create_token_script sample_library (sample_config ''devnet'') sample_env sample_network
        [''node'', ''create-token.ts'']
   = \<lparr>events =
       [NewConnection \<lparr>conn_id = 0, endpoint = ''https://api.devnet.solana.com'', commitment = ''confirmed''\<rparr>,
        ConsoleLog [Lit ''Creating token mint with '', Num (parseInt10 ''9''), Lit '' decimals...''],
        ConsoleLog [Lit ''Payer / Mint Authority: '', Key [1, 2]],
        Network (CreateMint [1, 2] [1, 2] [1, 2] (parseInt10 ''9'') [5, 6]),
        ConsoleLog [Lit check_mark, Lit '' Token mint created: '', Key [5, 6]],
        ConsoleLog [Lit ''  Decimals:        '', Num (parseInt10 ''9'')],
        ConsoleLog [Lit ''  Mint authority:  '', Key [1, 2]],
        ConsoleLog [Lit ''  Freeze authority: '', Key [1, 2]]],
      exit_code = 0\<rparr>"
  unfolding create_token_script_def create_token_main_def Let_def
  by (simp add: sample_eval)

text \<open>
  C10. In every run of the create-mint script, each call of \<^verbatim>\<open>createMint\<close> is made for the
  resolved identity: payer, mint authority and freeze authority are all its public key; and the
  call is made whenever the identity resolves.  Without a decimals argument the number of
  decimals passed is \<^verbatim>\<open>parseInt("9", 10)\<close>, the Number 9.
\<close>

theorem create_mint_defaults:
  "(\<forall>p m f d k.
       Network (CreateMint p m f d k) \<in> set (events (create_token_script L cfg env W argv)) \<longrightarrow>
       (\<exists>payer. resolveKeypair L cfg env = Inr payer
           \<and> p = publicKey payer \<and> m = publicKey payer \<and> f = publicKey payer)
       \<and> (argv_at argv 2 = [] \<longrightarrow> d = parseInt10 ''9''))
   \<and> (\<forall>payer. resolveKeypair L cfg env = Inr payer \<longrightarrow>
         (\<exists>d k. Network (CreateMint (publicKey payer) (publicKey payer) (publicKey payer) d k)
                  \<in> set (events (create_token_script L cfg env W argv))))
   \<and> js_BigInt (parseInt10 ''9'') = Inr 9"
proof (intro conjI allI impI)
  fix p m f d k
  assume "Network (CreateMint p m f d k) \<in> set (events (create_token_script L cfg env W argv))"
  then have i: "Network (CreateMint p m f d k) \<in> set (fst (create_token_main L cfg env W argv))"
    by (simp add: create_token_script_def network_in_script)
  show "\<exists>payer. resolveKeypair L cfg env = Inr payer
           \<and> p = publicKey payer \<and> m = publicKey payer \<and> f = publicKey payer"
  proof (cases "resolveKeypair L cfg env")
    case (Inl err)
    with i show ?thesis unfolding create_token_events by simp
  next
    case (Inr payer)
    with i show ?thesis unfolding create_token_events by (auto split: sum.splits)
  qed
  assume "argv_at argv 2 = []"
  with i show "d = parseInt10 ''9''"
    unfolding create_token_events by (cases "resolveKeypair L cfg env") (auto split: sum.splits)
next
  fix payer
  assume "resolveKeypair L cfg env = Inr payer"
  then have "Network (CreateMint (publicKey payer) (publicKey payer) (publicKey payer)
        (parseInt10 (if argv_at argv 2 \<noteq> [] then argv_at argv 2 else ''9'')) (publicKey (generate L)))
       \<in> set (fst (create_token_main L cfg env W argv))"
    unfolding create_token_events by simp
  then show "\<exists>d k. Network (CreateMint (publicKey payer) (publicKey payer) (publicKey payer) d k)
                  \<in> set (events (create_token_script L cfg env W argv))"
    unfolding create_token_script_def network_in_script by blast
next
  show "js_BigInt (parseInt10 ''9'') = Inr 9" by (rule default_decimals)
qed

theorem create_mint_defaults_witness:
  "Network (CreateMint [1, 2] [1, 2] [1, 2] (parseInt10 ''9'') [5, 6])
     \<in> set (events (create_token_script sample_library (sample_config ''devnet'') sample_env
                      sample_network [''node'', ''create-token.ts'']))
   \<and> argv_at [''node'', ''create-token.ts''] 2 = []
   \<and> resolveKeypair sample_library (sample_config ''devnet'') sample_env
       = Inr \<lparr>publicKey = [1, 2], secretKey = [7, 7, 1, 2]\<rparr>
   \<and> js_BigInt (parseInt10 ''9'') = Inr 9"
  using create_mint_defaults
          [of sample_library "sample_config ''devnet''" sample_env sample_network
              "[''node'', ''create-token.ts'']"]
  unfolding sample_create_token_trace
  by (simp add: argv_at_def resolveKeypair_def loadKeypairFromBase58_def sample_library_def
        sample_env_def)

section \<open>Identity resolution\<close>

text \<open>
  C6. Identity resolution is a function of the environment and the file state, and a secret in
  the environment wins over the key file: when \<^verbatim>\<open>WALLET_PRIVATE_KEY\<close> holds a (non-empty)
  encoded secret, \<^verbatim>\<open>resolveKeypair\<close> returns \<^verbatim>\<open>Keypair.fromSecretKey\<close> of the bytes that
  \<^verbatim>\<open>bs58.decode\<close> makes of that secret (or throws what one of the two throws), whatever the
  files of the process and the configured path are.  The key pair of the file is never
  returned, not even when the secret of the environment fails to decode.
\<close>

theorem resolveKeypair_env_precedence:
  "vars env ''WALLET_PRIVATE_KEY'' = Some k \<Longrightarrow> k \<noteq> [] \<Longrightarrow>
     resolveKeypair L cfg (env\<lparr>files := fs\<rparr>) =
       (case bs58_decode L k of Inl err \<Rightarrow> Inl err | Inr secret \<Rightarrow> fromSecretKey L secret)"
  by (simp add: resolveKeypair_def loadKeypairFromBase58_def)

theorem resolveKeypair_env_precedence_witness:
  "vars sample_env ''WALLET_PRIVATE_KEY'' = Some ''3yZe7d'' \<and> ''3yZe7d'' \<noteq> [] \<and>
   bs58_decode sample_library ''3yZe7d'' = Inr [7, 7, 1, 2] \<and>
   fromSecretKey sample_library [7, 7, 1, 2] = Inr \<lparr>publicKey = [1, 2], secretKey = [7, 7, 1, 2]\<rparr> \<and>
   loadKeypairFromFile sample_library sample_env (WALLET_PATH (sample_config ''devnet''))
     = Inr \<lparr>publicKey = [3, 4], secretKey = [9, 9, 3, 4]\<rparr> \<and>
   resolveKeypair sample_library (sample_config ''devnet'') (sample_env\<lparr>files := files sample_env\<rparr>)
     = Inr \<lparr>publicKey = [1, 2], secretKey = [7, 7, 1, 2]\<rparr>"
  using resolveKeypair_env_precedence
          [of sample_env "''3yZe7d''" sample_library "sample_config ''devnet''" "files sample_env"]
  by (simp add: sample_env_def sample_config_def sample_library_def loadKeypairFromFile_def)
section \<open>Airdrop on the production network\<close>

text \<open>
  C7. When the configured network is \<^verbatim>\<open>mainnet-beta\<close>, the airdrop script prints its refusal
  and exits with status 1, and that is all it does: no connection object is constructed and
  no request goes to the network.
\<close>

theorem airdrop_mainnet_rejected:
  "NETWORK cfg = ''mainnet-beta'' \<Longrightarrow>
     airdrop_script L cfg env W argv =
       \<lparr>events = [ConsoleError [Lit ''Airdrop is not available on mainnet. Use devnet or testnet.'']],
        exit_code = 1\<rparr>"
  by (simp add: airdrop_script_def airdrop_main_def run_main_def then_run_def console_error_def
        process_exit_def)

theorem airdrop_mainnet_rejected_witness:
  "NETWORK (sample_config ''mainnet-beta'') = ''mainnet-beta'' \<and>
   airdrop_script sample_library (sample_config ''mainnet-beta'') sample_env sample_network
       [''node'', ''airdrop-devnet.ts''] =
     \<lparr>events = [ConsoleError [Lit ''Airdrop is not available on mainnet. Use devnet or testnet.'']],
      exit_code = 1\<rparr>"
  using airdrop_mainnet_rejected
          [of "sample_config ''mainnet-beta''" sample_library sample_env sample_network
              "[''node'', ''airdrop-devnet.ts'']"]
  by (simp add: sample_config_def)

section \<open>What the scripts print\<close>

text \<open>
  The body of each script shows keys only through \<^verbatim>\<open>toBase58()\<close> of a public key: the public
  key of the resolved identity, an address given on the command line, the address of the mint
  that was created.  It prints no error message.
\<close>

lemma every_event_then_value:
  "every_event P m \<Longrightarrow> (\<And>a. snd m = Value a \<Longrightarrow> every_event P (f a)) \<Longrightarrow> every_event P (then_run m f)"
  by (cases "snd m") (auto simp: every_event_def events_then_run)

lemma value_lift: "snd (lift r) = Value a \<longleftrightarrow> r = Inr a"
  by (cases r) (simp_all add: lift_def throw_def pure_run_def)

lemma value_ask: "snd (ask req r) = Value a \<longleftrightarrow> r = Inr a"
  by (cases r) (simp_all add: ask_def)

lemma value_pure: "snd (pure_run b) = Value a \<longleftrightarrow> b = a"
  by (simp add: pure_run_def)

lemmas shown = every_event_def events_basic shows_only_def console_pieces_def value_lift value_ask
  value_pure

lemma swap_console_keys:
  "every_event
     (shows_only {k. new_PublicKey L (argv_at argv 2) = Inr k \<or> new_PublicKey L (argv_at argv 3) = Inr k})
     (swap_main L cfg env W argv)"
  unfolding swap_main_def Let_def
  by (intro every_event_if every_event_then_value; simp add: shown)

lemma create_token_console_keys:
  "every_event
     (shows_only ({k. \<exists>kp. resolveKeypair L cfg env = Inr kp \<and> k = publicKey kp}
                  \<union> {k. \<exists>p m f d g. createMint W p m f d g = Inr k}))
     (create_token_main L cfg env W argv)"
  unfolding create_token_main_def Let_def
  by (intro every_event_if every_event_then_value; auto simp add: shown)

lemma airdrop_console_keys:
  "every_event
     (shows_only ({k. \<exists>kp. resolveKeypair L cfg env = Inr kp \<and> k = publicKey kp}
                  \<union> {k. new_PublicKey L (argv_at argv 3) = Inr k}))
     (airdrop_main L cfg env W argv)"
  unfolding airdrop_main_def Let_def
  by (intro every_event_if every_event_then_value;
      auto simp add: shown result_then_run split: if_splits completion.splits)

text \<open>
  The handler \<^verbatim>\<open>main().catch(...)\<close> prints the message of whatever ended \<^verbatim>\<open>main\<close>.  When the
  identity does not resolve, that is the exception raised while the secret was being parsed, and
  its message is the one the package or \<^verbatim>\<open>JSON.parse\<close> chose.
\<close>

lemma resolveKeypair_file_error:
  assumes "vars env ''WALLET_PRIVATE_KEY'' = None" and "files env (WALLET_PATH cfg) = Some raw"
    and "json_byte_array L raw = Inl err"
  shows "resolveKeypair L cfg env = Inl err"
  using assms by (simp add: resolveKeypair_def loadKeypairFromFile_def)

lemma create_token_identity_error:
  assumes "resolveKeypair L cfg env = Inl err"
  shows "create_token_script L cfg env W argv =
           \<lparr>events = [NewConnection \<lparr>conn_id = 0, endpoint = RPC_URL cfg, commitment = COMMITMENT cfg\<rparr>,
                      ConsoleError [Lit ''Create token failed:'', Msg err]],
            exit_code = 1\<rparr>"
  unfolding create_token_script_def create_token_main_def Let_def
  by (simp add: run_main_def run_steps assms)

lemma swap_identity_error:
  assumes "resolveKeypair L cfg env = Inl err"
    and "argv_at argv 2 \<noteq> []" "argv_at argv 3 \<noteq> []" "argv_at argv 4 \<noteq> []"
  shows "swap_script L cfg env W argv =
           \<lparr>events = [NewConnection \<lparr>conn_id = 0, endpoint = RPC_URL cfg, commitment = COMMITMENT cfg\<rparr>,
                      ConsoleError [Lit ''Swap failed:'', Msg err]],
            exit_code = 1\<rparr>"
  unfolding swap_script_def swap_main_def Let_def
  by (simp add: run_main_def run_steps assms)

lemma airdrop_identity_error:
  assumes "resolveKeypair L cfg env = Inl err"
    and "NETWORK cfg \<noteq> ''mainnet-beta''" "argv_at argv 3 = []"
  shows "airdrop_script L cfg env W argv =
           \<lparr>events = [NewConnection \<lparr>conn_id = 0, endpoint = RPC_URL cfg, commitment = COMMITMENT cfg\<rparr>,
                      ConsoleError [Lit ''Airdrop failed:'', Msg err]],
            exit_code = 1\<rparr>"
  unfolding airdrop_script_def airdrop_main_def Let_def
  by (simp add: run_main_def run_steps assms)

text \<open>
  C8. The claim, which is also what the repository promises of its scripts (scripts/README.md:
  "Never log private keys; scripts only log public keys"), fails on the code.  With a key
  file that holds the bytes of the secret and a stray comma, \<^verbatim>\<open>JSON.parse\<close> raises a SyntaxError
  whose message quotes the text of the file; nothing between \<^verbatim>\<open>loadKeypairFromFile\<close> and the
  handler catches it, and the create-mint script and the swap script each print that message:
  the bytes of the secret appear on the console.
\<close>

theorem key_file_text_on_console:
  "files damaged_key_file_env (WALLET_PATH (sample_config ''devnet'')) = Some ''[9,9,3,4,]''
   \<and> create_token_script quoting_library (sample_config ''devnet'') damaged_key_file_env sample_network
        [''node'', ''create-token.ts'']
     = \<lparr>events =
         [NewConnection \<lparr>conn_id = 0, endpoint = ''https://api.devnet.solana.com'', commitment = ''confirmed''\<rparr>,
          ConsoleError [Lit ''Create token failed:'',
                        Msg (Thrown ''Unexpected token in JSON text: [9,9,3,4,]'')]],
        exit_code = 1\<rparr>
   \<and> swap_script quoting_library (sample_config ''devnet'') damaged_key_file_env sample_network
        [''node'', ''swap-jupiter.ts'', ''So11'', ''EPjF'', ''1.5'']
     = \<lparr>events =
         [NewConnection \<lparr>conn_id = 0, endpoint = ''https://api.devnet.solana.com'', commitment = ''confirmed''\<rparr>,
          ConsoleError [Lit ''Swap failed:'',
                        Msg (Thrown ''Unexpected token in JSON text: [9,9,3,4,]'')]],
        exit_code = 1\<rparr>"
proof -
  have f: "files damaged_key_file_env (WALLET_PATH (sample_config ''devnet'')) = Some ''[9,9,3,4,]''"
    by (simp add: damaged_key_file_env_def sample_config_def)
  have r: "resolveKeypair quoting_library (sample_config ''devnet'') damaged_key_file_env
      = Inl (Thrown ''Unexpected token in JSON text: [9,9,3,4,]'')"
    by (rule resolveKeypair_file_error[OF _ f])
       (simp_all add: damaged_key_file_env_def quoting_library_def sample_library_def)
  have a: "argv_at [''node'', ''swap-jupiter.ts'', ''So11'', ''EPjF'', ''1.5''] 2 \<noteq> []"
    "argv_at [''node'', ''swap-jupiter.ts'', ''So11'', ''EPjF'', ''1.5''] 3 \<noteq> []"
    "argv_at [''node'', ''swap-jupiter.ts'', ''So11'', ''EPjF'', ''1.5''] 4 \<noteq> []"
    by (simp_all add: argv_at_def)
  have u: "RPC_URL (sample_config ''devnet'') = ''https://api.devnet.solana.com''"
    "COMMITMENT (sample_config ''devnet'') = ''confirmed''"
    by (simp_all add: sample_config_def)
  show ?thesis
    unfolding create_token_identity_error[OF r] swap_identity_error[OF r a] u
    using f by simp
qed
end
